theory Spec2Isabelle
  imports Main "HOL-Library.Sublist"
begin

section \<open>JavaScript values used by the handlers\<close>

text \<open>
  Strings are lists of characters. A request field that may be missing
  (\<open>undefined\<close>) is an \<open>option\<close>. JavaScript's truthiness test on such a field,
  as in \<open>if (name)\<close> or \<open>if (!auth)\<close>, is false for \<open>undefined\<close> and for the
  empty string.
\<close>

definition truthy :: "string option \<Rightarrow> bool" where
  "truthy v = (case v of None \<Rightarrow> False | Some s \<Rightarrow> s \<noteq> [])"

text \<open>\<open>a || b\<close> on two such fields: \<open>a\<close> when it is truthy, \<open>b\<close> otherwise.\<close>

definition js_or :: "string option \<Rightarrow> string option \<Rightarrow> string option" where
  "js_or a b = (if truthy a then a else b)"

text \<open>
  \<open>s.split(c)\<close> for a one-character separator: the pieces between the
  occurrences of \<open>c\<close>, empty pieces included. The result is never empty:
  \<open>"".split(",")\<close> is \<open>[""]\<close> and \<open>",".split(",")\<close> is \<open>["", ""]\<close>.
\<close>

fun split :: "char \<Rightarrow> string \<Rightarrow> string list" where
  "split c [] = [[]]"
| "split c (x # xs) =
     (if x = c then [] # split c xs
      else (case split c xs of [] \<Rightarrow> [[x]] | p # ps \<Rightarrow> (x # p) # ps))"

section \<open>Auth middleware (middlewares.js)\<close>

text \<open>
  \<open>jwt.verify(token, secret)\<close> is a library call: it is a parameter of the model,
  returning the decoded claims or \<open>None\<close> where the library throws. The request
  headers are a dictionary. The middleware either answers itself (status and
  error message) or calls \<open>next()\<close> with the decoded claims attached to the
  request.
\<close>

datatype 'c auth_result = Reject nat string | Next 'c

definition token_of :: "string list \<Rightarrow> string" where
  "token_of parts = (if length parts = 2 then parts ! 1 else parts ! 0)"

definition verifyToken ::
  "(string \<Rightarrow> string \<Rightarrow> 'c option) \<Rightarrow> string \<Rightarrow> (string \<rightharpoonup> string) \<Rightarrow> 'c auth_result" where
  "verifyToken jwt_verify secret headers =
     (let auth = js_or (headers ''authorization'') (headers ''Authorization'') in
      case auth of
        None \<Rightarrow> Reject 401 ''Missing token''
      | Some a \<Rightarrow>
          if a = [] then Reject 401 ''Missing token''
          else
            (let parts = split (CHR '' '') a;
                 token = token_of parts
             in case jwt_verify token secret of
                  Some tokenData \<Rightarrow> Next tokenData
                | None \<Rightarrow> Reject 401 ''Invalid token''))"

section \<open>The database handle (db.js)\<close>

text \<open>
  The module keeps one global, \<open>client\<close>, initially \<open>null\<close>. The MongoDB driver
  is outside the repository: the parameter \<open>driver\<close> says what
  \<open>new MongoClient(uri)\<close> followed by \<open>client.connect()\<close> does for a
  connection string. The events record the driver calls made, so that "no new
  connection" can be read off the state.
\<close>

datatype attempt = Bad_uri | Unreachable | Reachable

record mongo_client =
  client_uri :: string

datatype handle = Client mongo_client | Db mongo_client string

datatype event = New_client string | Client_connect string

record module_state =
  client :: "mongo_client option"
  events :: "event list"

definition initial_module :: module_state where
  "initial_module = \<lparr>client = None, events = []\<rparr>"

text \<open>
  \<open>connect(uri, dbname)\<close>. \<open>None\<close> is a thrown error: the constructor throws
  on a malformed connection string (the global stays \<open>null\<close>), and
  \<open>client.connect()\<close> rejects where the server cannot be reached (the global
  is already assigned).
\<close>

definition connect ::
  "(string \<Rightarrow> attempt) \<Rightarrow> string \<Rightarrow> string \<Rightarrow> module_state \<Rightarrow> handle option \<times> module_state" where
  "connect driver uri dbname st =
     (case client st of
        Some c \<Rightarrow> (Some (Client c), st)
      | None \<Rightarrow>
          (case driver uri of
             Bad_uri \<Rightarrow> (None, st)
           | Unreachable \<Rightarrow>
               (None, \<lparr>client = Some \<lparr>client_uri = uri\<rparr>,
                       events = events st @ [New_client uri, Client_connect uri]\<rparr>)
           | Reachable \<Rightarrow>
               (Some (Db \<lparr>client_uri = uri\<rparr> dbname),
                \<lparr>client = Some \<lparr>client_uri = uri\<rparr>,
                 events = events st @ [New_client uri, Client_connect uri]\<rparr>)))"

section \<open>Documents and collections\<close>

text \<open>
  An \<open>ObjectId\<close> is written as a string. \<open>new ObjectId(s)\<close> is a library call
  that throws on a malformed string; the handlers take the constructor as the
  parameter \<open>ObjectId\<close> (\<open>None\<close> where it throws). A collection is the list
  of its documents in storage order.
\<close>

type_synonym oid = string

record cuisine_doc =
  cuisine_id :: oid
  cuisine_name :: string

record tag_doc =
  tag_id :: oid
  tag_name :: string

record ingredient =
  ing_name :: string
  ing_quantity :: string
  ing_unit :: string

record recipe =
  recipe_id :: oid
  recipe_name :: string
  cuisine :: cuisine_doc
  prepTime :: "int option"
  cookTime :: "int option"
  servings :: "int option"
  ingredients :: "ingredient list"
  instructions :: "string list"
  tags :: "tag_doc list"

record user_doc =
  user_id :: oid
  email :: string
  password :: string

record database =
  cuisines :: "cuisine_doc list"
  tag_docs :: "tag_doc list"
  recipes :: "recipe list"
  users :: "user_doc list"

text \<open>
  The body of a reply, and the reply with its HTTP status (\<open>res.json\<close> without
  \<open>res.status\<close> answers 200).
\<close>

record recipe_view =
  view_id :: oid
  view_name :: string
  view_prepTime :: "int option"
  view_instructions :: "string list"
  view_ingredients :: "ingredient list"
  view_tags :: "tag_doc list"

datatype payload =
    Error string
  | Message string
  | Created string oid
  | Recipes "recipe_view list"
  | Access_token string

record response =
  status :: nat
  payload :: payload

text \<open>
  The driver calls the handlers make. \<open>findOne\<close> returns the first document
  that satisfies the filter; \<open>insertOne\<close> fails on an \<open>_id\<close> already in the
  collection; \<open>updateOne\<close> changes the first document with the given
  \<open>_id\<close> and reports how many it matched; \<open>deleteOne\<close> removes the first
  document with the given \<open>_id\<close>, if there is one.
\<close>

definition findOne :: "('a \<Rightarrow> bool) \<Rightarrow> 'a list \<Rightarrow> 'a option" where
  "findOne p coll = find p coll"

definition insertOne :: "recipe \<Rightarrow> recipe list \<Rightarrow> recipe list option" where
  "insertOne doc coll =
     (if recipe_id doc \<in> set (map recipe_id coll) then None else Some (coll @ [doc]))"

fun updateOne :: "oid \<Rightarrow> (recipe \<Rightarrow> recipe) \<Rightarrow> recipe list \<Rightarrow> nat \<times> recipe list" where
  "updateOne i f [] = (0, [])"
| "updateOne i f (r # rs) =
     (if recipe_id r = i then (1, f r # rs)
      else (case updateOne i f rs of (matchedCount, rs') \<Rightarrow> (matchedCount, r # rs')))"

fun deleteOne :: "oid \<Rightarrow> recipe list \<Rightarrow> recipe list" where
  "deleteOne i [] = []"
| "deleteOne i (r # rs) = (if recipe_id r = i then rs else r # deleteOne i rs)"

section \<open>Recipe write path (index.js)\<close>

text \<open>
  The JSON body of \<open>POST /recipes\<close> and \<open>PUT /recipes/:id\<close>, every field
  optional. \<open>name\<close> and \<open>cuisine\<close> are strings, \<open>ingredients\<close>,
  \<open>instructions\<close> and \<open>tags\<close> are arrays: an empty string is falsy, an
  empty array is not.
\<close>

record recipe_body =
  body_name :: "string option"
  body_cuisine :: "string option"
  body_prepTime :: "int option"
  body_cookTime :: "int option"
  body_servings :: "int option"
  body_ingredients :: "ingredient list option"
  body_instructions :: "string list option"
  body_tags :: "string list option"

definition missing_required :: "recipe_body \<Rightarrow> bool" where
  "missing_required b =
     (\<not> truthy (body_name b) \<or> \<not> truthy (body_cuisine b) \<or> body_ingredients b = None \<or>
      body_instructions b = None \<or> body_tags b = None)"

definition find_tags :: "string list \<Rightarrow> tag_doc list \<Rightarrow> tag_doc list" where
  "find_tags names coll = filter (\<lambda>d. tag_name d \<in> set names) coll"

definition embed_tags :: "tag_doc list \<Rightarrow> tag_doc list" where
  "embed_tags tagDocs = map (\<lambda>tag. \<lparr>tag_id = tag_id tag, tag_name = tag_name tag\<rparr>) tagDocs"

definition reply :: "nat \<Rightarrow> payload \<Rightarrow> response" where
  "reply code p = \<lparr>status = code, payload = p\<rparr>"

text \<open>
  \<open>POST /recipes\<close>. \<open>new_id\<close> is the identifier \<open>new ObjectId()\<close> generates.
  The handler returns its reply and the database after the request.
\<close>

definition post_recipe :: "oid \<Rightarrow> database \<Rightarrow> recipe_body \<Rightarrow> response \<times> database" where
  "post_recipe new_id db b =
     (if missing_required b then (reply 400 (Error ''Missing required fields''), db)
      else
        (case (body_name b, body_cuisine b, body_ingredients b, body_instructions b, body_tags b) of
           (Some name, Some cuisine_nm, Some ings, Some instrs, Some tag_names) \<Rightarrow>
             (case findOne (\<lambda>d. cuisine_name d = cuisine_nm) (cuisines db) of
                None \<Rightarrow> (reply 400 (Error ''Invalid cuisine''), db)
              | Some cuisineDoc \<Rightarrow>
                  (let tagDocs = find_tags tag_names (tag_docs db) in
                   if length tagDocs \<noteq> length tag_names
                   then (reply 400 (Error ''One or more invalid tags''), db)
                   else
                     (let newRecipe =
                        \<lparr>recipe_id = new_id,
                         recipe_name = name,
                         cuisine = \<lparr>cuisine_id = cuisine_id cuisineDoc,
                                    cuisine_name = cuisine_name cuisineDoc\<rparr>,
                         prepTime = body_prepTime b,
                         cookTime = body_cookTime b,
                         servings = body_servings b,
                         ingredients = ings,
                         instructions = instrs,
                         tags = embed_tags tagDocs\<rparr>
                      in case insertOne newRecipe (recipes db) of
                           None \<Rightarrow> (reply 500 (Error ''Internal server error''), db)
                         | Some rs \<Rightarrow>
                             (reply 201 (Created ''Recipe created successfully'' new_id),
                              db\<lparr>recipes := rs\<rparr>))))
         | _ \<Rightarrow> (reply 400 (Error ''Missing required fields''), db)))"

text \<open>\<open>PUT /recipes/:id\<close>; \<open>recipeId\<close> is the route parameter.\<close>

definition put_recipe ::
  "(string \<Rightarrow> oid option) \<Rightarrow> database \<Rightarrow> string \<Rightarrow> recipe_body \<Rightarrow> response \<times> database" where
  "put_recipe ObjectId db recipeId b =
     (if missing_required b then (reply 400 (Error ''Missing required fields''), db)
      else
        (case (body_name b, body_cuisine b, body_ingredients b, body_instructions b, body_tags b) of
           (Some name, Some cuisine_nm, Some ings, Some instrs, Some tag_names) \<Rightarrow>
             (case findOne (\<lambda>d. cuisine_name d = cuisine_nm) (cuisines db) of
                None \<Rightarrow> (reply 400 (Error ''Invalid cuisine''), db)
              | Some cuisineDoc \<Rightarrow>
                  (let tagDocs = find_tags tag_names (tag_docs db) in
                   if length tagDocs \<noteq> length tag_names
                   then (reply 400 (Error ''One or more invalid tags''), db)
                   else
                     (let updatedRecipe = (\<lambda>r.
                        r\<lparr>recipe_name := name,
                          cuisine := \<lparr>cuisine_id = cuisine_id cuisineDoc,
                                      cuisine_name = cuisine_name cuisineDoc\<rparr>,
                          prepTime := body_prepTime b,
                          cookTime := body_cookTime b,
                          servings := body_servings b,
                          ingredients := ings,
                          instructions := instrs,
                          tags := embed_tags tagDocs\<rparr>)
                      in case ObjectId recipeId of
                           None \<Rightarrow> (reply 500 (Error ''Internal server error''), db)
                         | Some i \<Rightarrow>
                             (case updateOne i updatedRecipe (recipes db) of
                                (matchedCount, rs) \<Rightarrow>
                                  if matchedCount = 0
                                  then (reply 404 (Error ''Recipe not found''), db\<lparr>recipes := rs\<rparr>)
                                  else (reply 200 (Message ''Recipe updated successfully''),
                                        db\<lparr>recipes := rs\<rparr>)))))
         | _ \<Rightarrow> (reply 400 (Error ''Missing required fields''), db)))"

text \<open>\<open>DELETE /recipes/:id\<close>.\<close>

definition delete_recipe ::
  "(string \<Rightarrow> oid option) \<Rightarrow> database \<Rightarrow> string \<Rightarrow> response \<times> database" where
  "delete_recipe ObjectId db recipeId =
     (case ObjectId recipeId of
        None \<Rightarrow> (reply 500 (Error ''Internal server error''), db)
      | Some i \<Rightarrow>
          (reply 200 (Message ''Recipe deleted successfully''),
           db\<lparr>recipes := deleteOne i (recipes db)\<rparr>))"

text \<open>
  A constructor for evaluating the handlers: the string form the driver
  documents, 24 hexadecimal digits, read without regard to the digits' case.
\<close>

definition lower :: "char \<Rightarrow> char" where
  "lower c =
     (case map_of (zip ''ABCDEFGHIJKLMNOPQRSTUVWXYZ'' ''abcdefghijklmnopqrstuvwxyz'') c of
        Some l \<Rightarrow> l
      | None \<Rightarrow> c)"

definition ObjectId_hex :: "string \<Rightarrow> oid option" where
  "ObjectId_hex s =
     (if length s = 24 \<and> list_all (\<lambda>c. lower c \<in> set ''0123456789abcdef'') s
      then Some (map lower s) else None)"

section \<open>Login (index.js)\<close>

text \<open>
  The body of \<open>POST /login\<close> is JSON: its \<open>password\<close> field may be a string,
  a value of another type (a number stands for these) or missing. The email
  is a string. \<open>bcrypt.compare(plain, hash)\<close> and \<open>jwt.sign\<close> are library
  calls and parameters of the model; \<open>generateAccessToken\<close> signs the user's
  id and email with the secret. The library compares two strings; given a
  password that is not a string it rejects with "Illegal arguments". The
  handler has no \<open>try\<close>, so that error leaves the handler without a reply
  (\<open>None\<close>). The comparison is reached only when the lookup has found a user.
\<close>

datatype body_value = Text string | Number int | Missing

definition generateAccessToken ::
  "(oid \<times> string \<Rightarrow> string \<Rightarrow> string) \<Rightarrow> string \<Rightarrow> oid \<Rightarrow> string \<Rightarrow> string" where
  "generateAccessToken jwt_sign secret i e = jwt_sign (i, e) secret"

definition login ::
  "(string \<Rightarrow> string \<Rightarrow> bool) \<Rightarrow> (oid \<times> string \<Rightarrow> string \<Rightarrow> string) \<Rightarrow> string \<Rightarrow>
   database \<Rightarrow> string \<Rightarrow> body_value \<Rightarrow> response option" where
  "login bcrypt_compare jwt_sign secret db email_in password_in =
     (case findOne (\<lambda>u. email u = email_in) (users db) of
        Some user \<Rightarrow>
          (case password_in of
             Text p \<Rightarrow>
               if bcrypt_compare p (password user)
               then Some (reply 200 (Access_token
                      (generateAccessToken jwt_sign secret (user_id user) (email user))))
               else Some (reply 401 (Error ''Invalid login''))
           | Number n \<Rightarrow> None
           | Missing \<Rightarrow> None)
      | None \<Rightarrow> Some (reply 401 (Error ''Invalid login'')))"

section \<open>Recipe search (index.js)\<close>

text \<open>
  The query string of \<open>GET /recipes\<close>, each parameter given at most once, so
  that it is a string or missing. Regular expressions are compiled by the
  JavaScript engine (\<open>new RegExp(i, 'i')\<close>) and evaluated by the database
  server; both are outside the repository. The parameter \<open>RegExp\<close> gives, for
  a pattern source, the test it compiles to (does the pattern, read
  case-insensitively, match somewhere in the subject?), or \<open>None\<close> where the
  pattern is rejected with an error.
\<close>

record query =
  query_name :: "string option"
  query_tags :: "string option"
  query_ingredients :: "string option"

datatype all_clause = All_strings "string list" | All_regexps "string list"

record criteria =
  crit_name :: "string option"
  crit_tags_name :: "string list option"
  crit_ingredients_name :: "all_clause option"

definition when_truthy :: "string option \<Rightarrow> (string \<Rightarrow> 'a \<Rightarrow> 'a) \<Rightarrow> 'a \<Rightarrow> 'a" where
  "when_truthy v f c = (case v of None \<Rightarrow> c | Some s \<Rightarrow> if s \<noteq> [] then f s c else c)"

text \<open>
  The criteria object as the handler fills it, in the source's order: the
  \<open>name\<close> pattern, the \<open>tags.name\<close> list, the exact \<open>ingredients.name\<close>
  list, and then the list of regular expressions that overwrites it. The loop
  that builds the expressions throws where \<open>new RegExp\<close> does.
\<close>

definition build_criteria :: "(string \<Rightarrow> (string \<Rightarrow> bool) option) \<Rightarrow> query \<Rightarrow> criteria option" where
  "build_criteria RegExp q =
     (let c0 = \<lparr>crit_name = None, crit_tags_name = None, crit_ingredients_name = None\<rparr>;
          c1 = when_truthy (query_name q) (\<lambda>name c. c\<lparr>crit_name := Some name\<rparr>) c0;
          c2 = when_truthy (query_tags q)
                 (\<lambda>tags_in c. c\<lparr>crit_tags_name := Some (split (CHR '','') tags_in)\<rparr>) c1;
          c3 = when_truthy (query_ingredients q)
                 (\<lambda>ings c. c\<lparr>crit_ingredients_name := Some (All_strings (split (CHR '','') ings))\<rparr>) c2
      in case query_ingredients q of
           None \<Rightarrow> Some c3
         | Some ings \<Rightarrow>
             if ings = [] then Some c3
             else
               (let ingedientsArray = split (CHR '','') ings in
                case those (map RegExp ingedientsArray) of
                  None \<Rightarrow> None
                | Some regularExpressionArray \<Rightarrow>
                    Some (c3\<lparr>crit_ingredients_name := Some (All_regexps ingedientsArray)\<rparr>)))"

text \<open>
  What the database does with each clause. A pattern on \<open>name\<close> must find a
  match in the recipe's name. \<open>$in\<close> on \<open>tags.name\<close> holds when some
  embedded tag has one of the listed names. \<open>$all\<close> on \<open>ingredients.name\<close>
  holds when every listed value (a string to equal, or a pattern to match) is
  met by some ingredient's name; \<open>$all\<close> of an empty list selects nothing.
  A clause that is absent holds of every recipe.
\<close>

definition name_clause ::
  "(string \<Rightarrow> (string \<Rightarrow> bool) option) \<Rightarrow> criteria \<Rightarrow> (recipe \<Rightarrow> bool) option" where
  "name_clause RegExp c =
     (case crit_name c of
        None \<Rightarrow> Some (\<lambda>r. True)
      | Some p \<Rightarrow> map_option (\<lambda>m r. m (recipe_name r)) (RegExp p))"

definition tags_clause :: "criteria \<Rightarrow> recipe \<Rightarrow> bool" where
  "tags_clause c r =
     (case crit_tags_name c of
        None \<Rightarrow> True
      | Some names \<Rightarrow> list_ex (\<lambda>t. tag_name t \<in> set names) (tags r))"

definition all_of :: "('a \<Rightarrow> string \<Rightarrow> bool) \<Rightarrow> 'a list \<Rightarrow> recipe \<Rightarrow> bool" where
  "all_of holds vs r =
     (vs \<noteq> [] \<and> list_all (\<lambda>v. list_ex (\<lambda>i. holds v (ing_name i)) (ingredients r)) vs)"

definition ingredients_clause ::
  "(string \<Rightarrow> (string \<Rightarrow> bool) option) \<Rightarrow> criteria \<Rightarrow> (recipe \<Rightarrow> bool) option" where
  "ingredients_clause RegExp c =
     (case crit_ingredients_name c of
        None \<Rightarrow> Some (\<lambda>r. True)
      | Some (All_strings vs) \<Rightarrow> Some (all_of (\<lambda>v s. s = v) vs)
      | Some (All_regexps ps) \<Rightarrow> map_option (all_of (\<lambda>m s. m s)) (those (map RegExp ps)))"

text \<open>
  \<open>find(criteria)\<close> on a collection: \<open>None\<close> where the server rejects a
  pattern, otherwise the documents that satisfy every clause, in storage order.
\<close>

definition find_recipes ::
  "(string \<Rightarrow> (string \<Rightarrow> bool) option) \<Rightarrow> criteria \<Rightarrow> recipe list \<Rightarrow> recipe list option" where
  "find_recipes RegExp c coll =
     (case name_clause RegExp c of
        None \<Rightarrow> None
      | Some name_ok \<Rightarrow>
          (case ingredients_clause RegExp c of
             None \<Rightarrow> None
           | Some ingredients_ok \<Rightarrow>
               Some (filter (\<lambda>r. name_ok r \<and> tags_clause c r \<and> ingredients_ok r) coll)))"

definition project :: "recipe \<Rightarrow> recipe_view" where
  "project r =
     \<lparr>view_id = recipe_id r, view_name = recipe_name r, view_prepTime = prepTime r,
      view_instructions = instructions r, view_ingredients = ingredients r,
      view_tags = tags r\<rparr>"

text \<open>
  \<open>GET /recipes\<close>. The handler has no \<open>try\<close>: an error thrown while the
  criteria are built or by the database leaves the request unanswered
  (\<open>None\<close>).
\<close>

definition get_recipes ::
  "(string \<Rightarrow> (string \<Rightarrow> bool) option) \<Rightarrow> database \<Rightarrow> query \<Rightarrow> response option" where
  "get_recipes RegExp db q =
     (case build_criteria RegExp q of
        None \<Rightarrow> None
      | Some critera \<Rightarrow>
          (case find_recipes RegExp critera (recipes db) of
             None \<Rightarrow> None
           | Some found \<Rightarrow> Some (reply 200 (Recipes (map project found)))))"

subsection \<open>A fragment of the regular expression language\<close>

text \<open>
  For evaluating the handlers, two kinds of pattern. The characters with a
  meaning of their own in a pattern (the backslash and
  \<open>^ $ . * + ? ( ) [ ] { } |\<close>) are the syntax characters. A pattern
  without syntax characters is searched for at every position of the subject,
  character by character, without regard to the case of the letters A to Z.
  A pattern that is a caret followed by such a text must match at the start
  of the subject. The pattern \<open>(\<close>, a group that is never closed, is one
  the engines reject with a syntax error. Any other pattern is outside the
  fragment: this function answers \<open>None\<close> for it too, and is not used on
  it. The fragment is used on ASCII patterns and subjects only.
\<close>

definition syntax_chars :: "char list" where
  "syntax_chars = CHR 0x5C # ''^$.*+?()[]{}|''"

definition plain :: "string \<Rightarrow> bool" where
  "plain t = list_all (\<lambda>c. c \<notin> set syntax_chars) t"

fun match_here :: "string \<Rightarrow> string \<Rightarrow> bool" where
  "match_here [] s = True"
| "match_here (p # ps) [] = False"
| "match_here (p # ps) (c # cs) = (lower p = lower c \<and> match_here ps cs)"

fun search :: "string \<Rightarrow> string \<Rightarrow> bool" where
  "search p [] = match_here p []"
| "search p (c # cs) = (match_here p (c # cs) \<or> search p cs)"

definition RegExp_fragment :: "string \<Rightarrow> (string \<Rightarrow> bool) option" where
  "RegExp_fragment p =
     (if plain p then Some (search p)
      else if p = ''('' then None
      else
        (case p of
           [] \<Rightarrow> None
         | c # rest \<Rightarrow> if c = CHR ''^'' \<and> plain rest then Some (match_here rest) else None))"

text \<open>
  "The name contains the token case-insensitively", for ASCII text: the token,
  with its letters A to Z lowered, is a contiguous part of the name with its
  letters A to Z lowered. A string is ASCII text when all its characters are
  printable ASCII characters (codes 32 to 126); for other text the engines
  fold more letters than these, and this reading of "case-insensitively" is
  not used.
\<close>

definition ascii_text :: "string \<Rightarrow> bool" where
  "ascii_text s = list_all (\<lambda>c. 32 \<le> (of_char c :: nat) \<and> (of_char c :: nat) < 127) s"

definition ci_contains :: "string \<Rightarrow> string \<Rightarrow> bool" where
  "ci_contains t s = sublist (map lower t) (map lower s)"

text \<open>
  "The pattern matches the name": the token compiles, and its test accepts the
  name.
\<close>

definition pattern_matches :: "(string \<Rightarrow> (string \<Rightarrow> bool) option) \<Rightarrow> string \<Rightarrow> string \<Rightarrow> bool" where
  "pattern_matches RegExp p x = (case RegExp p of None \<Rightarrow> False | Some m \<Rightarrow> m x)"

text \<open>
  A validation error, as the client sees it: status 400 with an error message.
\<close>

definition is_validation_error :: "response \<Rightarrow> bool" where
  "is_validation_error r = (status r = 400 \<and> (case payload r of Error msg \<Rightarrow> True | _ \<Rightarrow> False))"

section \<open>Example data\<close>

text \<open>
  Concrete requests and database states on which the handlers are evaluated.
  \<open>accepts_only good key\<close> is a token verifier that accepts the one token
  \<open>good\<close> under the secret \<open>key\<close>.
\<close>

definition accepts_only :: "string \<Rightarrow> string \<Rightarrow> string \<Rightarrow> string \<Rightarrow> nat option" where
  "accepts_only good key token secret = (if token = good \<and> secret = key then Some 7 else None)"

text \<open>
  A database with one cuisine, two tags, one recipe and one user, and a
  complete request body that names them.
\<close>

definition french :: cuisine_doc where
  "french = \<lparr>cuisine_id = ''c1'', cuisine_name = ''French''\<rparr>"

definition quick :: tag_doc where
  "quick = \<lparr>tag_id = ''t1'', tag_name = ''quick''\<rparr>"

definition spicy :: tag_doc where
  "spicy = \<lparr>tag_id = ''t2'', tag_name = ''spicy''\<rparr>"

definition soup :: recipe where
  "soup =
     \<lparr>recipe_id = ''507f1f77bcf86cd799439011'', recipe_name = ''Soup'', cuisine = french,
      prepTime = Some 10, cookTime = Some 20, servings = Some 2,
      ingredients = [\<lparr>ing_name = ''Onion'', ing_quantity = ''2'', ing_unit = ''pieces''\<rparr>],
      instructions = [''Boil''], tags = [quick]\<rparr>"

definition alice :: user_doc where
  "alice = \<lparr>user_id = ''u1'', email = ''alice@example.com'', password = ''hash-of-secret''\<rparr>"

definition example_db :: database where
  "example_db = \<lparr>cuisines = [french], tag_docs = [quick, spicy], recipes = [soup], users = [alice]\<rparr>"

definition stew_body :: recipe_body where
  "stew_body =
     \<lparr>body_name = Some ''Stew'', body_cuisine = Some ''French'', body_prepTime = Some 5,
      body_cookTime = Some 50, body_servings = Some 4,
      body_ingredients = Some [\<lparr>ing_name = ''Beef'', ing_quantity = ''1'', ing_unit = ''kg''\<rparr>],
      body_instructions = Some [''Simmer''], body_tags = Some [''quick'']\<rparr>"

text \<open>A password check that accepts the password \<open>p\<close> for the hash \<open>hash-of-p\<close>.\<close>

definition compare_example :: "string \<Rightarrow> string \<Rightarrow> bool" where
  "compare_example pw hash = (hash = ''hash-of-'' @ pw)"

definition sign_example :: "oid \<times> string \<Rightarrow> string \<Rightarrow> string" where
  "sign_example claims secret = fst claims @ ''.'' @ snd claims @ ''.'' @ secret"

definition thai_body :: recipe_body where
  "thai_body = stew_body\<lparr>body_cuisine := Some ''Thai''\<rparr>"

definition nameless_body :: recipe_body where
  "nameless_body = stew_body\<lparr>body_name := None, body_cuisine := Some ''Thai''\<rparr>"

definition unknown_tag_body :: recipe_body where
  "unknown_tag_body = stew_body\<lparr>body_tags := Some [''quick'', ''vegan'']\<rparr>"

definition repeated_tag_body :: recipe_body where
  "repeated_tag_body = stew_body\<lparr>body_tags := Some [''quick'', ''quick'']\<rparr>"

definition twin_tags_db :: database where
  "twin_tags_db = example_db\<lparr>tag_docs := [quick, quick\<lparr>tag_id := ''t9''\<rparr>]\<rparr>"

text \<open>A driver for which every server can be reached.\<close>

definition always_reachable :: "string \<Rightarrow> attempt" where
  "always_reachable uri = Reachable"

text \<open>
  Three recipes to search: the soup (tag quick, ingredient Onion), a chicken
  curry (tag spicy, ingredients Chicken and Chili) and a salad with no tags
  and no ingredients.
\<close>

definition chicken_curry :: recipe where
  "chicken_curry =
     \<lparr>recipe_id = ''507f1f77bcf86cd799439012'', recipe_name = ''Curry'', cuisine = french,
      prepTime = Some 15, cookTime = Some 30, servings = Some 4,
      ingredients = [\<lparr>ing_name = ''Chicken'', ing_quantity = ''500'', ing_unit = ''g''\<rparr>,
                     \<lparr>ing_name = ''Chili'', ing_quantity = ''2'', ing_unit = ''pieces''\<rparr>],
      instructions = [''Fry'', ''Simmer''], tags = [spicy]\<rparr>"

definition salad :: recipe where
  "salad =
     \<lparr>recipe_id = ''507f1f77bcf86cd799439013'', recipe_name = ''Salad'', cuisine = french,
      prepTime = None, cookTime = None, servings = None,
      ingredients = [], instructions = [], tags = []\<rparr>"

definition search_db :: database where
  "search_db = example_db\<lparr>recipes := [soup, chicken_curry, salad]\<rparr>"

definition only_tags :: "string \<Rightarrow> query" where
  "only_tags s = \<lparr>query_name = None, query_tags = Some s, query_ingredients = None\<rparr>"

definition only_ingredients :: "string \<Rightarrow> query" where
  "only_ingredients s = \<lparr>query_name = None, query_tags = None, query_ingredients = Some s\<rparr>"

section \<open>Splitting\<close>

lemma split_nonempty: "split c s \<noteq> []"
  by (induction s) (auto split: list.splits)

lemma split_no_sep: "c \<notin> set s \<Longrightarrow> split c s = [s]"
  by (induction s) auto

lemma split_append_sep:
  "c \<notin> set s \<Longrightarrow> split c (s @ c # t) = s # split c t"
  by (induction s) auto

section \<open>Auth middleware: the verified segment\<close>

lemma split_one_sep:
  "c \<notin> set s \<Longrightarrow> c \<notin> set t \<Longrightarrow> split c (s @ c # t) = [s, t]"
  by (simp add: split_append_sep split_no_sep)

lemma verifyToken_present:
  assumes "js_or (headers ''authorization'') (headers ''Authorization'') = Some a" and "a \<noteq> []"
  shows "verifyToken jwt_verify secret headers =
           (case jwt_verify (token_of (split (CHR '' '') a)) secret of
              Some tokenData \<Rightarrow> Next tokenData
            | None \<Rightarrow> Reject 401 ''Invalid token'')"
  using assms by (simp add: verifyToken_def Let_def)

lemma token_of_short:
  assumes "parts \<noteq> []" and "length parts \<le> 2"
  shows "token_of parts = last parts"
proof (cases parts)
  case Nil
  with assms show ?thesis by simp
next
  case (Cons p ps)
  note outer = Cons
  show ?thesis
  proof (cases ps)
    case Nil
    with outer show ?thesis by (simp add: token_of_def)
  next
    case (Cons q qs)
    with outer assms have "qs = []" by simp
    with outer Cons show ?thesis by (simp add: token_of_def)
  qed
qed

lemma token_of_long: "2 < length parts \<Longrightarrow> token_of parts = hd parts"
  by (cases parts) (auto simp: token_of_def)

text \<open>
  Claim C1, as amended. When the authorization header is present and not
  empty, the middleware splits its value at every single space and verifies
  one segment against the secret: the second segment when there are exactly
  two, the first segment otherwise. For a bare token (no space) and for the
  form "scheme token" (one space) that segment is the last one; for a value of
  three or more segments it is the first one, not the last.
\<close>

theorem verifyToken_token_segment:
  assumes "js_or (headers ''authorization'') (headers ''Authorization'') = Some a" and "a \<noteq> []"
  shows "verifyToken jwt_verify secret headers =
           (case jwt_verify (token_of (split (CHR '' '') a)) secret of
              Some tokenData \<Rightarrow> Next tokenData
            | None \<Rightarrow> Reject 401 ''Invalid token'')
         \<and> (length (split (CHR '' '') a) \<le> 2 \<longrightarrow>
              token_of (split (CHR '' '') a) = last (split (CHR '' '') a))
         \<and> (2 < length (split (CHR '' '') a) \<longrightarrow>
              token_of (split (CHR '' '') a) = hd (split (CHR '' '') a))
         \<and> (CHR '' '' \<notin> set a \<longrightarrow> token_of (split (CHR '' '') a) = a)
         \<and> (\<forall>scheme tok. a = scheme @ CHR '' '' # tok \<and> CHR '' '' \<notin> set scheme \<and>
               CHR '' '' \<notin> set tok \<longrightarrow> token_of (split (CHR '' '') a) = tok)"
proof (intro conjI impI allI)
  show "verifyToken jwt_verify secret headers =
           (case jwt_verify (token_of (split (CHR '' '') a)) secret of
              Some tokenData \<Rightarrow> Next tokenData
            | None \<Rightarrow> Reject 401 ''Invalid token'')"
    by (rule verifyToken_present [OF assms])
next
  assume "length (split (CHR '' '') a) \<le> 2"
  then show "token_of (split (CHR '' '') a) = last (split (CHR '' '') a)"
    by (rule token_of_short [OF split_nonempty])
next
  assume "2 < length (split (CHR '' '') a)"
  then show "token_of (split (CHR '' '') a) = hd (split (CHR '' '') a)"
    by (rule token_of_long)
next
  assume "CHR '' '' \<notin> set a"
  then show "token_of (split (CHR '' '') a) = a"
    by (simp add: split_no_sep token_of_def)
next
  fix scheme tok
  assume "a = scheme @ CHR '' '' # tok \<and> CHR '' '' \<notin> set scheme \<and> CHR '' '' \<notin> set tok"
  then show "token_of (split (CHR '' '') a) = tok"
    by (simp add: split_one_sep token_of_def)
qed

text \<open>
  The headers \<open>authorization: Bearer good\<close> and \<open>Authorization: good\<close>: the
  token \<open>good\<close> is verified and the request goes on.
\<close>

theorem verifyToken_token_segment_witness:
  "verifyToken (accepts_only ''good'' ''k'') ''k'' [''authorization'' \<mapsto> ''Bearer good''] = Next 7
   \<and> token_of (split (CHR '' '') ''Bearer good'') = last (split (CHR '' '') ''Bearer good'')
   \<and> token_of (split (CHR '' '') ''Bearer good'') = ''good''
   \<and> verifyToken (accepts_only ''good'' ''k'') ''k'' [''Authorization'' \<mapsto> ''good''] = Next 7
   \<and> token_of (split (CHR '' '') ''good'') = ''good''"
proof -
  have h: "js_or ([''authorization'' \<mapsto> ''Bearer good''] ''authorization'')
             ([''authorization'' \<mapsto> ''Bearer good''] ''Authorization'') = Some ''Bearer good''"
    by (simp add: js_or_def truthy_def)
  have n: "''Bearer good'' \<noteq> []" by simp
  from verifyToken_token_segment [OF h n, of "accepts_only ''good'' ''k''" "''k''"]
  have "verifyToken (accepts_only ''good'' ''k'') ''k'' [''authorization'' \<mapsto> ''Bearer good''] =
          (case accepts_only ''good'' ''k'' (token_of (split (CHR '' '') ''Bearer good'')) ''k'' of
             Some tokenData \<Rightarrow> Next tokenData
           | None \<Rightarrow> Reject 401 ''Invalid token'')"
    by (rule conjunct1)
  moreover have "token_of (split (CHR '' '') ''Bearer good'') = ''good''"
    by (simp add: token_of_def)
  moreover have "last (split (CHR '' '') ''Bearer good'') = ''good''"
    by simp
  moreover have h': "js_or ([''Authorization'' \<mapsto> ''good''] ''authorization'')
             ([''Authorization'' \<mapsto> ''good''] ''Authorization'') = Some ''good''"
    by (simp add: js_or_def truthy_def)
  have n': "''good'' \<noteq> []" by simp
  from verifyToken_token_segment [OF h' n', of "accepts_only ''good'' ''k''" "''k''"]
  have "verifyToken (accepts_only ''good'' ''k'') ''k'' [''Authorization'' \<mapsto> ''good''] =
          (case accepts_only ''good'' ''k'' (token_of (split (CHR '' '') ''good'')) ''k'' of
             Some tokenData \<Rightarrow> Next tokenData
           | None \<Rightarrow> Reject 401 ''Invalid token'')"
    by (rule conjunct1)
  moreover have "token_of (split (CHR '' '') ''good'') = ''good''"
    by (simp add: token_of_def)
  ultimately show ?thesis by (simp add: accepts_only_def)
qed

text \<open>
  Claim C1 as stated fails on the header \<open>Bearer x good\<close>: its last segment
  \<open>good\<close> is a token the verifier accepts, but the middleware verifies the
  first segment \<open>Bearer\<close> and rejects the request.
\<close>

theorem verifyToken_last_segment_counterexample:
  "verifyToken (accepts_only ''good'' ''k'') ''k'' [''authorization'' \<mapsto> ''Bearer x good'']
     = Reject 401 ''Invalid token''
   \<and> last (split (CHR '' '') ''Bearer x good'') = ''good''
   \<and> token_of (split (CHR '' '') ''Bearer x good'') = ''Bearer''
   \<and> accepts_only ''good'' ''k'' ''good'' ''k'' = Some 7"
  by (simp add: verifyToken_def js_or_def truthy_def token_of_def accepts_only_def)

section \<open>Recipe write path: validation before any write\<close>

lemma findOne_None_iff: "findOne p coll = None \<longleftrightarrow> (\<forall>x\<in>set coll. \<not> p x)"
  by (auto simp: findOne_def find_None_iff)

lemma findOne_cuisine_None:
  "c \<notin> cuisine_name ` set coll \<Longrightarrow> findOne (\<lambda>d. cuisine_name d = c) coll = None"
  by (auto simp: findOne_None_iff)

lemma findOne_cuisine_Some:
  "c \<in> cuisine_name ` set coll \<Longrightarrow> \<exists>d. findOne (\<lambda>d. cuisine_name d = c) coll = Some d"
  by (cases "findOne (\<lambda>d. cuisine_name d = c) coll") (auto simp: findOne_None_iff)

lemma present_fields:
  assumes "\<not> missing_required b"
  obtains name cuisine_nm ings instrs tag_names where
    "body_name b = Some name" "body_cuisine b = Some cuisine_nm"
    "body_ingredients b = Some ings" "body_instructions b = Some instrs"
    "body_tags b = Some tag_names"
  using assms by (auto simp: missing_required_def truthy_def split: option.splits)

lemma post_missing:
  "missing_required b \<Longrightarrow> post_recipe new_id db b = (reply 400 (Error ''Missing required fields''), db)"
  by (simp add: post_recipe_def)

lemma put_missing:
  "missing_required b \<Longrightarrow>
   put_recipe ObjectId db recipeId b = (reply 400 (Error ''Missing required fields''), db)"
  by (simp add: put_recipe_def)

lemma post_invalid_cuisine:
  assumes "\<not> missing_required b" "body_cuisine b = Some c" "c \<notin> cuisine_name ` set (cuisines db)"
  shows "post_recipe new_id db b = (reply 400 (Error ''Invalid cuisine''), db)"
proof -
  from assms(1) obtain name cuisine_nm ings instrs tag_names where
    f: "body_name b = Some name" "body_cuisine b = Some cuisine_nm"
    "body_ingredients b = Some ings" "body_instructions b = Some instrs"
    "body_tags b = Some tag_names"
    by (rule present_fields)
  with assms(2) have "cuisine_nm = c" by simp
  with assms f show ?thesis
    by (simp add: post_recipe_def findOne_cuisine_None)
qed

lemma put_invalid_cuisine:
  assumes "\<not> missing_required b" "body_cuisine b = Some c" "c \<notin> cuisine_name ` set (cuisines db)"
  shows "put_recipe ObjectId db recipeId b = (reply 400 (Error ''Invalid cuisine''), db)"
proof -
  from assms(1) obtain name cuisine_nm ings instrs tag_names where
    f: "body_name b = Some name" "body_cuisine b = Some cuisine_nm"
    "body_ingredients b = Some ings" "body_instructions b = Some instrs"
    "body_tags b = Some tag_names"
    by (rule present_fields)
  with assms(2) have "cuisine_nm = c" by simp
  with assms f show ?thesis
    by (simp add: put_recipe_def findOne_cuisine_None)
qed

lemma post_invalid_tags:
  assumes "\<not> missing_required b" "body_cuisine b = Some c" "c \<in> cuisine_name ` set (cuisines db)"
    "body_tags b = Some names" "length (find_tags names (tag_docs db)) \<noteq> length names"
  shows "post_recipe new_id db b = (reply 400 (Error ''One or more invalid tags''), db)"
proof -
  from assms(1) obtain name cuisine_nm ings instrs tag_names where
    f: "body_name b = Some name" "body_cuisine b = Some cuisine_nm"
    "body_ingredients b = Some ings" "body_instructions b = Some instrs"
    "body_tags b = Some tag_names"
    by (rule present_fields)
  with assms have e: "cuisine_nm = c" "tag_names = names" by simp_all
  from assms(3) obtain d where "findOne (\<lambda>d. cuisine_name d = c) (cuisines db) = Some d"
    using findOne_cuisine_Some by blast
  with assms f e show ?thesis
    by (simp add: post_recipe_def)
qed

lemma put_invalid_tags:
  assumes "\<not> missing_required b" "body_cuisine b = Some c" "c \<in> cuisine_name ` set (cuisines db)"
    "body_tags b = Some names" "length (find_tags names (tag_docs db)) \<noteq> length names"
  shows "put_recipe ObjectId db recipeId b = (reply 400 (Error ''One or more invalid tags''), db)"
proof -
  from assms(1) obtain name cuisine_nm ings instrs tag_names where
    f: "body_name b = Some name" "body_cuisine b = Some cuisine_nm"
    "body_ingredients b = Some ings" "body_instructions b = Some instrs"
    "body_tags b = Some tag_names"
    by (rule present_fields)
  with assms have e: "cuisine_nm = c" "tag_names = names" by simp_all
  from assms(3) obtain d where "findOne (\<lambda>d. cuisine_name d = c) (cuisines db) = Some d"
    using findOne_cuisine_Some by blast
  with assms f e show ?thesis
    by (simp add: put_recipe_def)
qed

lemma ObjectId_hex_soup:
  "ObjectId_hex ''507f1f77bcf86cd799439011'' = Some ''507f1f77bcf86cd799439011''"
  by code_simp

lemma ObjectId_hex_soup_upper:
  "ObjectId_hex ''507F1F77BCF86CD799439011'' = Some ''507f1f77bcf86cd799439011''"
  by code_simp

lemma ObjectId_hex_other:
  "ObjectId_hex ''0123456789abcdef01234567'' = Some ''0123456789abcdef01234567''"
  by code_simp

lemma ObjectId_hex_abc: "ObjectId_hex ''abc'' = None"
  by (simp add: ObjectId_hex_def)

text \<open>
  Claim C4, as amended. For every \<open>POST /recipes\<close> or \<open>PUT /recipes/:id\<close>
  request whose cuisine name equals the name of no document of the Cuisine
  collection, the handler answers HTTP 400 and leaves the database as it was.
  The error is "Invalid cuisine" when the required fields are all present; when
  one of them is missing the check of the required fields comes first and the
  error is "Missing required fields".
\<close>

theorem invalid_cuisine_rejected:
  assumes "body_cuisine b = Some c" and "c \<notin> cuisine_name ` set (cuisines db)"
  shows "post_recipe new_id db b =
           (reply 400 (Error (if missing_required b then ''Missing required fields''
                              else ''Invalid cuisine'')), db)
         \<and> put_recipe ObjectId db recipeId b =
           (reply 400 (Error (if missing_required b then ''Missing required fields''
                              else ''Invalid cuisine'')), db)"
proof (cases "missing_required b")
  case True
  then show ?thesis by (simp add: post_missing put_missing)
next
  case False
  with assms show ?thesis
    by (simp add: post_invalid_cuisine put_invalid_cuisine)
qed

text \<open>A complete body that names the cuisine Thai, which the example database lacks.\<close>

theorem invalid_cuisine_rejected_witness:
  "post_recipe ''n1'' example_db thai_body = (reply 400 (Error ''Invalid cuisine''), example_db)
   \<and> put_recipe ObjectId_hex example_db ''507f1f77bcf86cd799439011'' thai_body =
       (reply 400 (Error ''Invalid cuisine''), example_db)"
proof -
  have c: "body_cuisine thai_body = Some ''Thai''"
    by (simp add: thai_body_def)
  have n: "''Thai'' \<notin> cuisine_name ` set (cuisines example_db)"
    by (simp add: example_db_def french_def)
  have m: "\<not> missing_required thai_body"
    by (simp add: missing_required_def truthy_def thai_body_def stew_body_def)
  from invalid_cuisine_rejected [OF c n, of "''n1''" ObjectId_hex "''507f1f77bcf86cd799439011''"] m
  show ?thesis by simp
qed

text \<open>
  Claim C4 as stated fails on a body that names the unknown cuisine Thai and
  has no \<open>name\<close>: the reply is 400 "Missing required fields", not
  "Invalid cuisine".
\<close>

theorem invalid_cuisine_message_counterexample:
  "body_cuisine nameless_body = Some ''Thai''
   \<and> ''Thai'' \<notin> cuisine_name ` set (cuisines example_db)
   \<and> post_recipe ''n1'' example_db nameless_body =
       (reply 400 (Error ''Missing required fields''), example_db)
   \<and> put_recipe ObjectId_hex example_db ''507f1f77bcf86cd799439011'' nameless_body =
       (reply 400 (Error ''Missing required fields''), example_db)
   \<and> reply 400 (Error ''Missing required fields'') \<noteq> reply 400 (Error ''Invalid cuisine'')"
  by (simp add: post_recipe_def put_recipe_def missing_required_def truthy_def nameless_body_def
      stew_body_def example_db_def french_def reply_def)

lemma tag_count_mismatch_rejected:
  assumes "body_tags b = Some names"
    and "length (find_tags names (tag_docs db)) \<noteq> length names"
  shows "is_validation_error (fst (post_recipe new_id db b))
         \<and> snd (post_recipe new_id db b) = db
         \<and> is_validation_error (fst (put_recipe ObjectId db recipeId b))
         \<and> snd (put_recipe ObjectId db recipeId b) = db
         \<and> (\<not> missing_required b \<and>
              (\<exists>c. body_cuisine b = Some c \<and> c \<in> cuisine_name ` set (cuisines db)) \<longrightarrow>
              post_recipe new_id db b = (reply 400 (Error ''One or more invalid tags''), db) \<and>
              put_recipe ObjectId db recipeId b =
                (reply 400 (Error ''One or more invalid tags''), db))"
proof (cases "missing_required b")
  case True
  then show ?thesis
    by (simp add: post_missing put_missing is_validation_error_def reply_def)
next
  case False
  then obtain c where c: "body_cuisine b = Some c"
    by (rule present_fields)
  show ?thesis
  proof (cases "c \<in> cuisine_name ` set (cuisines db)")
    case True
    with False c assms show ?thesis
      by (simp add: post_invalid_tags put_invalid_tags is_validation_error_def reply_def)
  next
    case no_cuisine: False
    with False c show ?thesis
      by (simp add: post_invalid_cuisine put_invalid_cuisine is_validation_error_def reply_def)
  qed
qed

lemma find_tags_at_most_names:
  assumes "distinct (map tag_name coll)"
  shows "length (find_tags names coll) \<le> card (set names)"
proof -
  have d: "distinct (map tag_name (find_tags names coll))"
    using assms by (simp add: find_tags_def distinct_map_filter)
  have "set (map tag_name (find_tags names coll)) \<subseteq> set names"
    by (auto simp: find_tags_def)
  then have "card (set (map tag_name (find_tags names coll))) \<le> card (set names)"
    by (simp add: card_mono)
  moreover from d have "card (set (map tag_name (find_tags names coll))) =
      length (map tag_name (find_tags names coll))"
    by (rule distinct_card)
  ultimately show ?thesis by simp
qed

lemma repeated_names_unresolved:
  assumes "distinct (map tag_name coll)" and "\<not> distinct names"
  shows "length (find_tags names coll) \<noteq> length names"
proof -
  from assms(2) have "card (set names) \<noteq> length names"
    using card_distinct by blast
  moreover have "card (set names) \<le> length names"
    by (rule card_length)
  ultimately have "card (set names) < length names" by simp
  with find_tags_at_most_names [OF assms(1), of names] show ?thesis by simp
qed

lemma missing_name_unresolved:
  assumes "distinct (map tag_name coll)" and "\<not> set names \<subseteq> tag_name ` set coll"
  shows "length (find_tags names coll) \<noteq> length names"
proof -
  from assms(2) obtain n where n: "n \<in> set names" "n \<notin> tag_name ` set coll"
    by blast
  have d: "distinct (map tag_name (find_tags names coll))"
    using assms(1) by (simp add: find_tags_def distinct_map_filter)
  have "set (map tag_name (find_tags names coll)) \<subseteq> set names - {n}"
    using n by (auto simp: find_tags_def)
  then have "card (set (map tag_name (find_tags names coll))) \<le> card (set names - {n})"
    by (simp add: card_mono)
  moreover have "card (set names - {n}) < card (set names)"
    using finite_set n(1) by (rule card_Diff1_less)
  moreover have "card (set names) \<le> length names"
    by (rule card_length)
  moreover from d have "card (set (map tag_name (find_tags names coll))) =
      length (map tag_name (find_tags names coll))"
    by (rule distinct_card)
  ultimately show ?thesis by simp
qed

text \<open>
  Claim C5, as amended. For every \<open>POST /recipes\<close> or \<open>PUT /recipes/:id\<close>
  request with a list of tag names, if the lookup of those names in the Tag
  collection yields a number of documents different from the number of names,
  the handler answers with a validation error (HTTP 400 and an error message)
  and writes nothing; when the request has passed the checks that come first
  (required fields, cuisine), the message is "One or more invalid tags". Where
  the names of the Tag collection are pairwise different, a request that names
  a tag that does not exist always has such a mismatch and is rejected, so no
  list is accepted in part.
\<close>

theorem unresolved_tags_rejected:
  assumes "body_tags b = Some names"
  shows "(length (find_tags names (tag_docs db)) \<noteq> length names \<longrightarrow>
            is_validation_error (fst (post_recipe new_id db b))
            \<and> snd (post_recipe new_id db b) = db
            \<and> is_validation_error (fst (put_recipe ObjectId db recipeId b))
            \<and> snd (put_recipe ObjectId db recipeId b) = db
            \<and> (\<not> missing_required b \<and>
                 (\<exists>c. body_cuisine b = Some c \<and> c \<in> cuisine_name ` set (cuisines db)) \<longrightarrow>
                 post_recipe new_id db b = (reply 400 (Error ''One or more invalid tags''), db) \<and>
                 put_recipe ObjectId db recipeId b =
                   (reply 400 (Error ''One or more invalid tags''), db)))
         \<and> (distinct (map tag_name (tag_docs db)) \<and>
              \<not> set names \<subseteq> tag_name ` set (tag_docs db) \<longrightarrow>
              length (find_tags names (tag_docs db)) \<noteq> length names
              \<and> is_validation_error (fst (post_recipe new_id db b))
              \<and> snd (post_recipe new_id db b) = db
              \<and> is_validation_error (fst (put_recipe ObjectId db recipeId b))
              \<and> snd (put_recipe ObjectId db recipeId b) = db)"
proof -
  have first: "length (find_tags names (tag_docs db)) \<noteq> length names \<longrightarrow>
      is_validation_error (fst (post_recipe new_id db b))
      \<and> snd (post_recipe new_id db b) = db
      \<and> is_validation_error (fst (put_recipe ObjectId db recipeId b))
      \<and> snd (put_recipe ObjectId db recipeId b) = db
      \<and> (\<not> missing_required b \<and>
           (\<exists>c. body_cuisine b = Some c \<and> c \<in> cuisine_name ` set (cuisines db)) \<longrightarrow>
           post_recipe new_id db b = (reply 400 (Error ''One or more invalid tags''), db) \<and>
           put_recipe ObjectId db recipeId b =
             (reply 400 (Error ''One or more invalid tags''), db))"
  proof
    assume "length (find_tags names (tag_docs db)) \<noteq> length names"
    with assms show "is_validation_error (fst (post_recipe new_id db b))
        \<and> snd (post_recipe new_id db b) = db
        \<and> is_validation_error (fst (put_recipe ObjectId db recipeId b))
        \<and> snd (put_recipe ObjectId db recipeId b) = db
        \<and> (\<not> missing_required b \<and>
             (\<exists>c. body_cuisine b = Some c \<and> c \<in> cuisine_name ` set (cuisines db)) \<longrightarrow>
             post_recipe new_id db b = (reply 400 (Error ''One or more invalid tags''), db) \<and>
             put_recipe ObjectId db recipeId b =
               (reply 400 (Error ''One or more invalid tags''), db))"
      by (rule tag_count_mismatch_rejected)
  qed
  have second: "distinct (map tag_name (tag_docs db)) \<and>
      \<not> set names \<subseteq> tag_name ` set (tag_docs db) \<longrightarrow>
      length (find_tags names (tag_docs db)) \<noteq> length names
      \<and> is_validation_error (fst (post_recipe new_id db b))
      \<and> snd (post_recipe new_id db b) = db
      \<and> is_validation_error (fst (put_recipe ObjectId db recipeId b))
      \<and> snd (put_recipe ObjectId db recipeId b) = db"
  proof
    assume "distinct (map tag_name (tag_docs db)) \<and>
        \<not> set names \<subseteq> tag_name ` set (tag_docs db)"
    then have m: "length (find_tags names (tag_docs db)) \<noteq> length names"
      by (simp add: missing_name_unresolved)
    from tag_count_mismatch_rejected [OF assms m, of new_id ObjectId recipeId] m
    show "length (find_tags names (tag_docs db)) \<noteq> length names
        \<and> is_validation_error (fst (post_recipe new_id db b))
        \<and> snd (post_recipe new_id db b) = db
        \<and> is_validation_error (fst (put_recipe ObjectId db recipeId b))
        \<and> snd (put_recipe ObjectId db recipeId b) = db"
      by blast
  qed
  from first second show ?thesis by (rule conjI)
qed

text \<open>
  The tags quick and vegan, of which the example database, whose tag names are
  pairwise different, has only the first.
\<close>

theorem unresolved_tags_rejected_witness:
  "post_recipe ''n1'' example_db unknown_tag_body =
     (reply 400 (Error ''One or more invalid tags''), example_db)
   \<and> put_recipe ObjectId_hex example_db ''507f1f77bcf86cd799439011'' unknown_tag_body =
     (reply 400 (Error ''One or more invalid tags''), example_db)
   \<and> is_validation_error (fst (post_recipe ''n1'' example_db unknown_tag_body))
   \<and> length (find_tags [''quick'', ''vegan''] (tag_docs example_db)) = 1
   \<and> distinct (map tag_name (tag_docs example_db))
   \<and> ''vegan'' \<notin> tag_name ` set (tag_docs example_db)"
proof -
  have t: "body_tags unknown_tag_body = Some [''quick'', ''vegan'']"
    by (simp add: unknown_tag_body_def)
  have l: "length (find_tags [''quick'', ''vegan''] (tag_docs example_db)) = 1"
    by (simp add: find_tags_def example_db_def quick_def spicy_def)
  have d: "distinct (map tag_name (tag_docs example_db))"
    by (simp add: example_db_def quick_def spicy_def)
  have v: "''vegan'' \<notin> tag_name ` set (tag_docs example_db)"
    by (simp add: example_db_def quick_def spicy_def)
  then have s: "\<not> set [''quick'', ''vegan''] \<subseteq> tag_name ` set (tag_docs example_db)"
    by simp
  have m: "\<not> missing_required unknown_tag_body"
    by (simp add: missing_required_def truthy_def unknown_tag_body_def stew_body_def)
  have c: "\<exists>c. body_cuisine unknown_tag_body = Some c \<and> c \<in> cuisine_name ` set (cuisines example_db)"
    by (simp add: unknown_tag_body_def stew_body_def example_db_def french_def)
  note u = unresolved_tags_rejected
    [where b = unknown_tag_body and names = "[''quick'', ''vegan'']" and db = example_db
       and new_id = "''n1''" and ObjectId = ObjectId_hex
       and recipeId = "''507f1f77bcf86cd799439011''", OF t]
  from u d s have n: "length (find_tags [''quick'', ''vegan''] (tag_docs example_db))
      \<noteq> length [''quick'', ''vegan'']"
    by blast
  from u n m c have "post_recipe ''n1'' example_db unknown_tag_body =
        (reply 400 (Error ''One or more invalid tags''), example_db)
      \<and> put_recipe ObjectId_hex example_db ''507f1f77bcf86cd799439011'' unknown_tag_body =
        (reply 400 (Error ''One or more invalid tags''), example_db)"
    by blast
  with l d v show ?thesis by (simp add: is_validation_error_def reply_def)
qed

text \<open>
  Claim C5 as stated fails where two Tag documents share the name quick: the
  list \<open>[quick, vegan]\<close> resolves to two documents, as many as it has names,
  and the recipe is created (201) or updated (200) with the two quick tags,
  although no tag is named vegan.
\<close>

theorem partial_tags_accepted_counterexample:
  "body_tags unknown_tag_body = Some [''quick'', ''vegan'']
   \<and> ''vegan'' \<notin> tag_name ` set (tag_docs twin_tags_db)
   \<and> length (find_tags [''quick'', ''vegan''] (tag_docs twin_tags_db)) = 2
   \<and> status (fst (post_recipe ''n1'' twin_tags_db unknown_tag_body)) = 201
   \<and> map (\<lambda>r. map tag_name (tags r))
        (recipes (snd (post_recipe ''n1'' twin_tags_db unknown_tag_body))) =
       [[''quick''], [''quick'', ''quick'']]
   \<and> status (fst (put_recipe ObjectId_hex twin_tags_db ''507f1f77bcf86cd799439011''
        unknown_tag_body)) = 200"
  by (simp add: post_recipe_def put_recipe_def missing_required_def truthy_def
      unknown_tag_body_def stew_body_def twin_tags_db_def example_db_def french_def quick_def
      spicy_def soup_def reply_def findOne_def find_tags_def insertOne_def embed_tags_def
      ObjectId_hex_soup Let_def)

text \<open>
  Claim C10, as amended. Where the names of the Tag collection are pairwise
  different, every \<open>POST /recipes\<close> or \<open>PUT /recipes/:id\<close> request that passes
  the checks of the required fields and of the cuisine and whose tag list
  repeats a name is rejected with 400 "One or more invalid tags", also when
  every name exists, and nothing is written.
\<close>

theorem repeated_tag_rejected:
  assumes "\<not> missing_required b"
    and "body_cuisine b = Some c" and "c \<in> cuisine_name ` set (cuisines db)"
    and "body_tags b = Some names" and "\<not> distinct names"
    and "distinct (map tag_name (tag_docs db))"
  shows "post_recipe new_id db b = (reply 400 (Error ''One or more invalid tags''), db)
         \<and> put_recipe ObjectId db recipeId b =
             (reply 400 (Error ''One or more invalid tags''), db)"
proof -
  from assms(6) assms(5) have "length (find_tags names (tag_docs db)) \<noteq> length names"
    by (rule repeated_names_unresolved)
  with assms show ?thesis
    by (simp add: post_invalid_tags put_invalid_tags)
qed

text \<open>The tag quick, which exists, named twice.\<close>

theorem repeated_tag_rejected_witness:
  "post_recipe ''n1'' example_db repeated_tag_body =
     (reply 400 (Error ''One or more invalid tags''), example_db)
   \<and> put_recipe ObjectId_hex example_db ''507f1f77bcf86cd799439011'' repeated_tag_body =
     (reply 400 (Error ''One or more invalid tags''), example_db)
   \<and> set [''quick'', ''quick''] \<subseteq> tag_name ` set (tag_docs example_db)"
proof -
  have m: "\<not> missing_required repeated_tag_body"
    by (simp add: missing_required_def truthy_def repeated_tag_body_def stew_body_def)
  have c: "body_cuisine repeated_tag_body = Some ''French''"
    by (simp add: repeated_tag_body_def stew_body_def)
  have i: "''French'' \<in> cuisine_name ` set (cuisines example_db)"
    by (simp add: example_db_def french_def)
  have t: "body_tags repeated_tag_body = Some [''quick'', ''quick'']"
    by (simp add: repeated_tag_body_def)
  have r: "\<not> distinct [''quick'', ''quick'']" by simp
  have d: "distinct (map tag_name (tag_docs example_db))"
    by (simp add: example_db_def quick_def spicy_def)
  have e: "set [''quick'', ''quick''] \<subseteq> tag_name ` set (tag_docs example_db)"
    by (simp add: example_db_def quick_def spicy_def)
  from repeated_tag_rejected [OF m c i t r d, of "''n1''" ObjectId_hex "''507f1f77bcf86cd799439011''"] e
  show ?thesis by simp
qed

text \<open>
  Claim C10 as stated fails in two ways. Nothing in the code keeps tag names
  unique: with two Tag documents named quick, the list \<open>[quick, quick]\<close>
  resolves to two documents and the recipe is created (201) or updated (200).
  And a request that repeats a tag but names an unknown cuisine is rejected
  with "Invalid cuisine", not with the tag error.
\<close>

theorem repeated_tag_counterexample:
  "body_tags repeated_tag_body = Some [''quick'', ''quick'']
   \<and> status (fst (post_recipe ''n1'' twin_tags_db repeated_tag_body)) = 201
   \<and> length (recipes (snd (post_recipe ''n1'' twin_tags_db repeated_tag_body))) = 2
   \<and> length (recipes twin_tags_db) = 1
   \<and> status (fst (put_recipe ObjectId_hex twin_tags_db ''507f1f77bcf86cd799439011'' repeated_tag_body)) = 200
   \<and> post_recipe ''n1'' example_db (repeated_tag_body\<lparr>body_cuisine := Some ''Thai''\<rparr>) =
       (reply 400 (Error ''Invalid cuisine''), example_db)"
  by (simp add: post_recipe_def put_recipe_def missing_required_def truthy_def
      repeated_tag_body_def stew_body_def twin_tags_db_def example_db_def french_def quick_def
      spicy_def soup_def reply_def findOne_def find_tags_def insertOne_def embed_tags_def
      ObjectId_hex_soup Let_def)

section \<open>Deleting a recipe\<close>

lemma deleteOne_absent: "i \<notin> recipe_id ` set rs \<Longrightarrow> deleteOne i rs = rs"
  by (induction rs) auto

lemma deleteOne_removes:
  "distinct (map recipe_id rs) \<Longrightarrow> i \<notin> recipe_id ` set (deleteOne i rs)"
  by (induction rs) auto

lemma deleteOne_twice:
  "distinct (map recipe_id rs) \<Longrightarrow> deleteOne i (deleteOne i rs) = deleteOne i rs"
  by (simp add: deleteOne_absent deleteOne_removes)

text \<open>
  Claim C7, as amended. For every route parameter that the \<open>ObjectId\<close>
  constructor accepts, \<open>DELETE /recipes/:id\<close> answers 200 "Recipe deleted
  successfully", also when no recipe has that id (the database is then left as
  it was), and deleting the same id a second time gives the same reply; where
  the ids of the collection are pairwise different the second delete changes
  nothing.
\<close>

theorem delete_recipe_idempotent:
  assumes "ObjectId recipeId = Some i"
  shows "fst (delete_recipe ObjectId db recipeId) =
           reply 200 (Message ''Recipe deleted successfully'')
         \<and> fst (delete_recipe ObjectId (snd (delete_recipe ObjectId db recipeId)) recipeId) =
           fst (delete_recipe ObjectId db recipeId)
         \<and> (i \<notin> recipe_id ` set (recipes db) \<longrightarrow>
              delete_recipe ObjectId db recipeId =
                (reply 200 (Message ''Recipe deleted successfully''), db))
         \<and> (distinct (map recipe_id (recipes db)) \<longrightarrow>
              snd (delete_recipe ObjectId (snd (delete_recipe ObjectId db recipeId)) recipeId) =
              snd (delete_recipe ObjectId db recipeId))"
  using assms by (simp add: delete_recipe_def deleteOne_absent deleteOne_twice)

text \<open>
  An id that no recipe of the example database has, and the id of its one
  recipe, deleted twice.
\<close>

theorem delete_recipe_idempotent_witness:
  "delete_recipe ObjectId_hex example_db ''0123456789abcdef01234567'' =
     (reply 200 (Message ''Recipe deleted successfully''), example_db)
   \<and> fst (delete_recipe ObjectId_hex
            (snd (delete_recipe ObjectId_hex example_db ''507F1F77BCF86CD799439011''))
            ''507F1F77BCF86CD799439011'') =
       reply 200 (Message ''Recipe deleted successfully'')
   \<and> recipes (snd (delete_recipe ObjectId_hex example_db ''507F1F77BCF86CD799439011'')) = []
   \<and> snd (delete_recipe ObjectId_hex
            (snd (delete_recipe ObjectId_hex example_db ''507F1F77BCF86CD799439011''))
            ''507F1F77BCF86CD799439011'') =
       snd (delete_recipe ObjectId_hex example_db ''507F1F77BCF86CD799439011'')
   \<and> ''0123456789abcdef01234567'' \<notin> recipe_id ` set (recipes example_db)"
proof -
  note a = ObjectId_hex_other and b = ObjectId_hex_soup_upper
  have n: "''0123456789abcdef01234567'' \<notin> recipe_id ` set (recipes example_db)"
    by (simp add: example_db_def soup_def)
  have r: "recipes (snd (delete_recipe ObjectId_hex example_db ''507F1F77BCF86CD799439011'')) = []"
    by (simp add: delete_recipe_def b example_db_def soup_def)
  have d: "distinct (map recipe_id (recipes example_db))"
    by (simp add: example_db_def)
  note t = delete_recipe_idempotent [where ObjectId = ObjectId_hex and db = example_db]
  from t [where recipeId = "''0123456789abcdef01234567''", OF a]
    t [where recipeId = "''507F1F77BCF86CD799439011''", OF b] n r d
  show ?thesis by simp
qed

text \<open>
  Claim C7 as stated fails on the route parameter \<open>abc\<close>: no recipe has that
  id, the \<open>ObjectId\<close> constructor throws on it, and the handler's
  \<open>catch\<close> answers 500 "Internal server error".
\<close>

theorem delete_recipe_malformed_id_counterexample:
  "delete_recipe ObjectId_hex example_db ''abc'' =
     (reply 500 (Error ''Internal server error''), example_db)
   \<and> ''abc'' \<notin> recipe_id ` set (recipes example_db)
   \<and> reply 500 (Error ''Internal server error'') \<noteq>
       reply 200 (Message ''Recipe deleted successfully'')"
  by (simp add: delete_recipe_def ObjectId_hex_abc example_db_def soup_def reply_def)

section \<open>Login failures\<close>

lemma login_unknown:
  assumes "e \<notin> email ` set (users db)"
  shows "login bcrypt_compare jwt_sign secret db e pw = Some (reply 401 (Error ''Invalid login''))"
proof -
  from assms have "findOne (\<lambda>u. email u = e) (users db) = None"
    by (auto simp: findOne_None_iff)
  then show ?thesis by (simp add: login_def)
qed

lemma login_wrong_text:
  assumes "findOne (\<lambda>u. email u = e) (users db) = Some u"
    and "\<not> bcrypt_compare p (password u)"
  shows "login bcrypt_compare jwt_sign secret db e (Text p) =
           Some (reply 401 (Error ''Invalid login''))"
  using assms by (simp add: login_def)

lemma login_not_text:
  assumes "findOne (\<lambda>u. email u = e) (users db) = Some u" and "\<forall>p. pw \<noteq> Text p"
  shows "login bcrypt_compare jwt_sign secret db e pw = None"
  using assms by (cases pw) (simp_all add: login_def)

text \<open>
  Claim C6, on the code. For a registered email and an unregistered one, a
  login whose password is a string that does not verify gets the same reply
  as a login with the unregistered email: 401 "Invalid login". But with a
  password that is not a string the two are told apart: for the registered
  email the password comparison throws and the handler sends no reply, for
  the unregistered email the reply is still 401 "Invalid login".
\<close>

theorem login_non_string_password_tells_apart:
  assumes "findOne (\<lambda>u. email u = e1) (users db) = Some u"
    and "e2 \<notin> email ` set (users db)"
  shows "(\<forall>p1 pw2. \<not> bcrypt_compare p1 (password u) \<longrightarrow>
            login bcrypt_compare jwt_sign secret db e1 (Text p1) =
              Some (reply 401 (Error ''Invalid login'')) \<and>
            login bcrypt_compare jwt_sign secret db e2 pw2 =
              login bcrypt_compare jwt_sign secret db e1 (Text p1))
         \<and> (\<forall>pw. (\<forall>p. pw \<noteq> Text p) \<longrightarrow>
              login bcrypt_compare jwt_sign secret db e1 pw = None \<and>
              login bcrypt_compare jwt_sign secret db e2 pw =
                Some (reply 401 (Error ''Invalid login'')))"
  using assms by (simp add: login_unknown login_wrong_text login_not_text)

text \<open>
  Alice is registered, Bob is not. With the wrong password \<open>guess\<close> both get
  401; with the password \<open>123\<close> sent as a number, or with no password, the
  login for Alice gets no reply and the login for Bob gets 401. Alice with her
  password gets a token.
\<close>

theorem login_non_string_password_tells_apart_witness:
  "login compare_example sign_example ''k'' example_db ''alice@example.com'' (Text ''guess'') =
     Some (reply 401 (Error ''Invalid login''))
   \<and> login compare_example sign_example ''k'' example_db ''bob@example.com'' (Text ''secret'') =
     Some (reply 401 (Error ''Invalid login''))
   \<and> login compare_example sign_example ''k'' example_db ''alice@example.com'' (Number 123) = None
   \<and> login compare_example sign_example ''k'' example_db ''bob@example.com'' (Number 123) =
     Some (reply 401 (Error ''Invalid login''))
   \<and> login compare_example sign_example ''k'' example_db ''alice@example.com'' Missing = None
   \<and> login compare_example sign_example ''k'' example_db ''bob@example.com'' Missing =
     Some (reply 401 (Error ''Invalid login''))
   \<and> login compare_example sign_example ''k'' example_db ''alice@example.com'' (Text ''secret'') =
     Some (reply 200 (Access_token ''u1.alice@example.com.k''))"
proof -
  have f: "findOne (\<lambda>u. email u = ''alice@example.com'') (users example_db) = Some alice"
    by (simp add: findOne_def example_db_def alice_def)
  have w: "\<not> compare_example ''guess'' (password alice)"
    by (simp add: compare_example_def alice_def)
  have n: "''bob@example.com'' \<notin> email ` set (users example_db)"
    by (simp add: example_db_def alice_def)
  have ok: "login compare_example sign_example ''k'' example_db ''alice@example.com''
      (Text ''secret'') = Some (reply 200 (Access_token ''u1.alice@example.com.k''))"
    by (simp add: login_def f compare_example_def sign_example_def generateAccessToken_def alice_def)
  note t = login_non_string_password_tells_apart
    [where bcrypt_compare = compare_example and jwt_sign = sign_example and secret = "''k''"
       and db = example_db and ?e1.0 = "''alice@example.com''" and ?e2.0 = "''bob@example.com''"
       and u = alice, OF f n]
  from t w have a: "login compare_example sign_example ''k'' example_db ''alice@example.com''
        (Text ''guess'') = Some (reply 401 (Error ''Invalid login''))"
    and b: "login compare_example sign_example ''k'' example_db ''bob@example.com''
        (Text ''secret'') =
      login compare_example sign_example ''k'' example_db ''alice@example.com'' (Text ''guess'')"
    by blast+
  have "\<forall>p. Number 123 \<noteq> Text p" and "\<forall>p. Missing \<noteq> Text p"
    by simp_all
  with t have c: "login compare_example sign_example ''k'' example_db ''alice@example.com''
        (Number 123) = None"
    and d: "login compare_example sign_example ''k'' example_db ''bob@example.com''
        (Number 123) = Some (reply 401 (Error ''Invalid login''))"
    and e: "login compare_example sign_example ''k'' example_db ''alice@example.com''
        Missing = None"
    and g: "login compare_example sign_example ''k'' example_db ''bob@example.com''
        Missing = Some (reply 401 (Error ''Invalid login''))"
    by blast+
  from a b c d e g ok show ?thesis by simp
qed

section \<open>The database handle on a second call\<close>

text \<open>
  Claim C9, on the code. From the initial module state and a reachable server,
  the first call of \<open>connect\<close> returns the database handle
  \<open>client.db(dbname)\<close>. The second call makes no driver call and leaves the
  state as it is, but it returns the client object, not the database handle
  of the first call.
\<close>

theorem connect_second_call_returns_client:
  assumes "driver uri = Reachable"
  shows "fst (connect driver uri dbname initial_module) = Some (Db \<lparr>client_uri = uri\<rparr> dbname)
         \<and> connect driver uri dbname (snd (connect driver uri dbname initial_module)) =
             (Some (Client \<lparr>client_uri = uri\<rparr>), snd (connect driver uri dbname initial_module))
         \<and> fst (connect driver uri dbname (snd (connect driver uri dbname initial_module))) \<noteq>
             fst (connect driver uri dbname initial_module)
         \<and> events (snd (connect driver uri dbname initial_module)) =
             [New_client uri, Client_connect uri]"
  using assms by (simp add: connect_def initial_module_def)

text \<open>Two calls for the database \<open>recipe_book\<close> on a local server.\<close>

theorem connect_second_call_returns_client_witness:
  "fst (connect always_reachable ''mongodb://localhost'' ''recipe_book'' initial_module) =
     Some (Db \<lparr>client_uri = ''mongodb://localhost''\<rparr> ''recipe_book'')
   \<and> fst (connect always_reachable ''mongodb://localhost'' ''recipe_book''
        (snd (connect always_reachable ''mongodb://localhost'' ''recipe_book'' initial_module))) =
     Some (Client \<lparr>client_uri = ''mongodb://localhost''\<rparr>)"
proof -
  have r: "always_reachable ''mongodb://localhost'' = Reachable"
    by (simp add: always_reachable_def)
  from connect_second_call_returns_client
    [where driver = always_reachable and uri = "''mongodb://localhost''"
       and dbname = "''recipe_book''", OF r]
  show ?thesis by simp
qed

section \<open>Recipe search: the clauses of the filter\<close>

subsection \<open>Patterns without syntax characters\<close>

lemma match_here_prefix: "match_here t s = prefix (map lower t) (map lower s)"
proof (induction t arbitrary: s)
  case Nil
  show ?case by simp
next
  case (Cons c t)
  show ?case by (cases s) (simp_all add: Cons.IH)
qed

lemma search_sublist: "search t s = sublist (map lower t) (map lower s)"
proof (induction s)
  case Nil
  show ?case by (simp add: match_here_prefix)
next
  case (Cons c s)
  then show ?case by (simp add: match_here_prefix sublist_Cons_right)
qed

lemma RegExp_fragment_plain: "plain t \<Longrightarrow> RegExp_fragment t = Some (ci_contains t)"
proof -
  assume "plain t"
  then have "RegExp_fragment t = Some (search t)"
    by (simp add: RegExp_fragment_def)
  moreover have "search t = ci_contains t"
    by (rule ext) (simp add: search_sublist ci_contains_def)
  ultimately show ?thesis by simp
qed

lemma RegExp_fragment_empty: "RegExp_fragment [] = Some (ci_contains [])"
  by (rule RegExp_fragment_plain) (simp add: plain_def)

subsection \<open>The criteria and what they select\<close>

lemma build_criteria_no_ingredients:
  assumes "\<not> truthy (query_ingredients q)"
  shows "build_criteria RegExp q =
           Some \<lparr>crit_name = (if truthy (query_name q) then query_name q else None),
                 crit_tags_name = (if truthy (query_tags q)
                                   then map_option (split (CHR '','')) (query_tags q) else None),
                 crit_ingredients_name = None\<rparr>"
  using assms
  by (auto simp: build_criteria_def when_truthy_def truthy_def Let_def split: option.splits)

lemma build_criteria_ingredients:
  assumes "query_ingredients q = Some s" and "s \<noteq> []"
  shows "build_criteria RegExp q =
           (case those (map RegExp (split (CHR '','') s)) of
              None \<Rightarrow> None
            | Some ms \<Rightarrow>
                Some \<lparr>crit_name = (if truthy (query_name q) then query_name q else None),
                      crit_tags_name = (if truthy (query_tags q)
                                        then map_option (split (CHR '','')) (query_tags q) else None),
                      crit_ingredients_name = Some (All_regexps (split (CHR '','') s))\<rparr>)"
  using assms
  by (auto simp: build_criteria_def when_truthy_def truthy_def Let_def split: option.splits)

lemma build_criteria_tags:
  assumes "query_tags q = Some s" and "s \<noteq> []" and "build_criteria RegExp q = Some c"
  shows "crit_tags_name c = Some (split (CHR '','') s)"
proof (cases "truthy (query_ingredients q)")
  case False
  with assms show ?thesis
    by (auto simp: build_criteria_no_ingredients truthy_def)
next
  case True
  then obtain i where "query_ingredients q = Some i" "i \<noteq> []"
    by (auto simp: truthy_def split: option.splits)
  with assms show ?thesis
    by (auto simp: build_criteria_ingredients truthy_def split: option.splits)
qed

lemma tags_clause_in:
  "crit_tags_name c = Some names \<Longrightarrow>
   tags_clause c r \<longleftrightarrow> (\<exists>t\<in>set (tags r). tag_name t \<in> set names)"
  by (simp add: tags_clause_def list_ex_iff)

lemma find_recipes_sound:
  "find_recipes RegExp c coll = Some found \<Longrightarrow> r \<in> set found \<Longrightarrow> r \<in> set coll \<and> tags_clause c r"
  by (auto simp: find_recipes_def split: option.splits)

lemma find_recipes_ingredients_ok:
  "find_recipes RegExp c coll = Some found \<Longrightarrow> r \<in> set found \<Longrightarrow>
   \<exists>ok. ingredients_clause RegExp c = Some ok \<and> ok r"
  by (auto simp: find_recipes_def split: option.splits)

lemma get_recipes_Some:
  assumes "get_recipes RegExp db q = Some resp"
  obtains c found where "build_criteria RegExp q = Some c"
    and "find_recipes RegExp c (recipes db) = Some found"
    and "resp = reply 200 (Recipes (map project found))"
  using assms by (auto simp: get_recipes_def split: option.splits)

text \<open>
  Claim C8. For every non-empty \<open>tags\<close> parameter, the criteria get the clause
  \<open>tags.name $in\<close> the comma-split list, which holds of exactly the recipes
  with at least one embedded tag whose name is in that list. With no other
  parameter the handler returns exactly those recipes; with any other
  parameters, every recipe it returns has a tag whose name is in the list.
\<close>

theorem tags_filter_any_of:
  assumes "query_tags q = Some s" and "s \<noteq> []"
  shows "(\<forall>c. build_criteria RegExp q = Some c \<longrightarrow>
            crit_tags_name c = Some (split (CHR '','') s) \<and>
            (\<forall>r. tags_clause c r \<longleftrightarrow>
               (\<exists>t\<in>set (tags r). tag_name t \<in> set (split (CHR '','') s))))
         \<and> (\<not> truthy (query_name q) \<and> \<not> truthy (query_ingredients q) \<longrightarrow>
              get_recipes RegExp db q =
                Some (reply 200 (Recipes (map project
                  (filter (\<lambda>r. \<exists>t\<in>set (tags r). tag_name t \<in> set (split (CHR '','') s))
                     (recipes db))))))
         \<and> (\<forall>vs. get_recipes RegExp db q = Some (reply 200 (Recipes vs)) \<longrightarrow>
              (\<forall>v\<in>set vs. \<exists>t\<in>set (view_tags v). tag_name t \<in> set (split (CHR '','') s)))"
proof (intro conjI allI impI)
  fix c
  assume "build_criteria RegExp q = Some c"
  with assms show "crit_tags_name c = Some (split (CHR '','') s)"
    by (rule build_criteria_tags)
next
  fix c r
  assume "build_criteria RegExp q = Some c"
  with assms have "crit_tags_name c = Some (split (CHR '','') s)"
    by (rule build_criteria_tags)
  then show "tags_clause c r \<longleftrightarrow> (\<exists>t\<in>set (tags r). tag_name t \<in> set (split (CHR '','') s))"
    by (rule tags_clause_in)
next
  assume "\<not> truthy (query_name q) \<and> \<not> truthy (query_ingredients q)"
  with assms show "get_recipes RegExp db q =
      Some (reply 200 (Recipes (map project
        (filter (\<lambda>r. \<exists>t\<in>set (tags r). tag_name t \<in> set (split (CHR '','') s)) (recipes db)))))"
    by (simp add: get_recipes_def build_criteria_no_ingredients truthy_def find_recipes_def
        name_clause_def ingredients_clause_def tags_clause_def list_ex_iff)
next
  fix vs
  assume g: "get_recipes RegExp db q = Some (reply 200 (Recipes vs))"
  then obtain c found where c: "build_criteria RegExp q = Some c"
    and f: "find_recipes RegExp c (recipes db) = Some found"
    and "reply 200 (Recipes vs) = reply 200 (Recipes (map project found))"
    by (rule get_recipes_Some)
  then have vs: "vs = map project found"
    by (simp add: reply_def)
  from assms c have t: "crit_tags_name c = Some (split (CHR '','') s)"
    by (rule build_criteria_tags)
  show "\<forall>v\<in>set vs. \<exists>t\<in>set (view_tags v). tag_name t \<in> set (split (CHR '','') s)"
  proof
    fix v
    assume "v \<in> set vs"
    with vs obtain r where r: "r \<in> set found" and v: "v = project r" by auto
    from f r have "tags_clause c r" by (simp add: find_recipes_sound)
    with t have "\<exists>t\<in>set (tags r). tag_name t \<in> set (split (CHR '','') s)"
      by (simp add: tags_clause_in)
    with v show "\<exists>t\<in>set (view_tags v). tag_name t \<in> set (split (CHR '','') s)"
      by (simp add: project_def)
  qed
qed

text \<open>\<open>GET /recipes?tags=popular,spicy\<close> returns the curry, the one recipe tagged spicy.\<close>

theorem tags_filter_any_of_witness:
  "get_recipes RegExp_fragment search_db (only_tags ''popular,spicy'') =
     Some (reply 200 (Recipes [project chicken_curry]))
   \<and> split (CHR '','') ''popular,spicy'' = [''popular'', ''spicy'']
   \<and> map tag_name (tags chicken_curry) = [''spicy'']
   \<and> map tag_name (tags soup) = [''quick'']
   \<and> tags salad = []"
proof -
  have t: "query_tags (only_tags ''popular,spicy'') = Some ''popular,spicy''"
    by (simp add: only_tags_def)
  have n: "''popular,spicy'' \<noteq> []" by simp
  have o: "\<not> truthy (query_name (only_tags ''popular,spicy'')) \<and>
      \<not> truthy (query_ingredients (only_tags ''popular,spicy''))"
    by (simp add: only_tags_def truthy_def)
  have sp: "split (CHR '','') ''popular,spicy'' = [''popular'', ''spicy'']"
    by simp
  have f: "filter (\<lambda>r. \<exists>t\<in>set (tags r). tag_name t \<in> set [''popular'', ''spicy''])
      (recipes search_db) = [chicken_curry]"
    by (simp add: search_db_def soup_def chicken_curry_def salad_def quick_def spicy_def)
  from tags_filter_any_of [where RegExp = RegExp_fragment and db = search_db, OF t n] o
  have "get_recipes RegExp_fragment search_db (only_tags ''popular,spicy'') =
      Some (reply 200 (Recipes (map project
        (filter (\<lambda>r. \<exists>t\<in>set (tags r). tag_name t \<in> set (split (CHR '','') ''popular,spicy''))
           (recipes search_db)))))"
    by blast
  with sp f show ?thesis
    by (simp add: chicken_curry_def soup_def salad_def quick_def spicy_def)
qed

lemma split_only_separators: "set s \<subseteq> {c} \<Longrightarrow> split c s = replicate (Suc (length s)) []"
  by (induction s) auto

lemma those_replicate: "f x = Some y \<Longrightarrow> those (map f (replicate n x)) = Some (replicate n y)"
  by (induction n) auto

lemma all_of_always:
  assumes "\<forall>x. m x"
  shows "all_of (\<lambda>m s. m s) (replicate (Suc n) m) r \<longleftrightarrow> ingredients r \<noteq> []"
  using assms by (cases "ingredients r") (auto simp: all_of_def list_all_iff list_ex_iff)

lemma find_recipes_only_ingredients:
  assumes "crit_name c = None" and "crit_tags_name c = None"
    and "ingredients_clause RegExp c = Some ok"
  shows "find_recipes RegExp c coll = Some (filter ok coll)"
  using assms by (simp add: find_recipes_def name_clause_def tags_clause_def)

lemma build_criteria_ingredients_Some:
  assumes "query_ingredients q = Some s" and "s \<noteq> []"
    and "those (map RegExp (split (CHR '','') s)) = Some ms"
  shows "build_criteria RegExp q =
           Some \<lparr>crit_name = (if truthy (query_name q) then query_name q else None),
                 crit_tags_name = (if truthy (query_tags q)
                                   then map_option (split (CHR '','')) (query_tags q) else None),
                 crit_ingredients_name = Some (All_regexps (split (CHR '','') s))\<rparr>"
  using assms by (simp add: build_criteria_ingredients)

lemma ingredients_clause_regexps:
  assumes "crit_ingredients_name c = Some (All_regexps ps)"
    and "those (map RegExp ps) = Some ms"
  shows "ingredients_clause RegExp c = Some (all_of (\<lambda>m s. m s) ms)"
  using assms by (simp add: ingredients_clause_def)

lemma comma_only_criteria:
  assumes "query_ingredients q = Some s" and "s \<noteq> []" and "set s \<subseteq> {CHR '',''}"
    and "RegExp [] = Some m" and "\<forall>x. m x"
  obtains c where "build_criteria RegExp q = Some c"
    and "crit_name c = (if truthy (query_name q) then query_name q else None)"
    and "crit_tags_name c = (if truthy (query_tags q)
                             then map_option (split (CHR '','')) (query_tags q) else None)"
    and "crit_ingredients_name c = Some (All_regexps (replicate (Suc (length s)) []))"
    and "ingredients_clause RegExp c = Some (\<lambda>r. ingredients r \<noteq> [])"
proof -
  let ?n = "Suc (length s)"
  have sp: "split (CHR '','') s = replicate ?n []"
    using assms(3) by (rule split_only_separators)
  have "those (map RegExp (replicate ?n [])) = Some (replicate ?n m)"
    using assms(4) by (rule those_replicate)
  with sp have th: "those (map RegExp (split (CHR '','') s)) = Some (replicate ?n m)"
    by (simp only:)
  let ?c = "\<lparr>crit_name = (if truthy (query_name q) then query_name q else None),
             crit_tags_name = (if truthy (query_tags q)
                               then map_option (split (CHR '','')) (query_tags q) else None),
             crit_ingredients_name = Some (All_regexps (split (CHR '','') s))\<rparr>"
  have b: "build_criteria RegExp q = Some ?c"
    using assms(1,2) th by (rule build_criteria_ingredients_Some)
  have "crit_ingredients_name ?c = Some (All_regexps (split (CHR '','') s))"
    by simp
  then have "ingredients_clause RegExp ?c = Some (all_of (\<lambda>m s. m s) (replicate ?n m))"
    using th by (rule ingredients_clause_regexps)
  moreover have "all_of (\<lambda>m s. m s) (replicate ?n m) = (\<lambda>r. ingredients r \<noteq> [])"
    using assms(5) by (intro ext) (rule all_of_always)
  ultimately have i: "ingredients_clause RegExp ?c = Some (\<lambda>r. ingredients r \<noteq> [])"
    by (simp only:)
  have k: "crit_ingredients_name ?c = Some (All_regexps (replicate ?n []))"
    by (simp only: sp criteria.simps)
  from b i k show ?thesis
    by (intro that [of ?c]) simp_all
qed

text \<open>
  Claim C2, as amended. Splitting never gives an empty list. An
  \<open>ingredients\<close> parameter that is the empty string adds no clause. One that
  consists of \<open>n\<close> commas and nothing else does not make the builder fail: it
  adds the clause \<open>$all\<close> of \<open>n + 1\<close> empty patterns, and, the empty pattern
  matching every string, that clause holds of exactly the recipes that have at
  least one ingredient; with no other parameter those are the recipes returned.
\<close>

theorem comma_only_ingredients:
  assumes "query_ingredients q = Some s" and "set s \<subseteq> {CHR '',''}"
    and "RegExp [] = Some m" and "\<forall>x. m x"
  shows "split (CHR '','') s \<noteq> []
         \<and> (s = [] \<longrightarrow>
            (\<exists>c. build_criteria RegExp q = Some c \<and> crit_ingredients_name c = None))
         \<and> (s \<noteq> [] \<longrightarrow>
              (\<exists>c. build_criteria RegExp q = Some c \<and>
                 crit_ingredients_name c = Some (All_regexps (replicate (Suc (length s)) [])) \<and>
                 (\<exists>ok. ingredients_clause RegExp c = Some ok \<and>
                    (\<forall>r. ok r \<longleftrightarrow> ingredients r \<noteq> []))))
         \<and> (s \<noteq> [] \<and> \<not> truthy (query_name q) \<and> \<not> truthy (query_tags q) \<longrightarrow>
              get_recipes RegExp db q =
                Some (reply 200 (Recipes (map project
                  (filter (\<lambda>r. ingredients r \<noteq> []) (recipes db))))))"
proof (intro conjI impI)
  show "split (CHR '','') s \<noteq> []"
    by (rule split_nonempty)
next
  assume "s = []"
  with assms(1) have "\<not> truthy (query_ingredients q)"
    by (simp add: truthy_def)
  then show "\<exists>c. build_criteria RegExp q = Some c \<and> crit_ingredients_name c = None"
    by (simp add: build_criteria_no_ingredients)
next
  assume n: "s \<noteq> []"
  from assms(1) n assms(2-4) obtain c where "build_criteria RegExp q = Some c"
    and "crit_ingredients_name c = Some (All_regexps (replicate (Suc (length s)) []))"
    and "ingredients_clause RegExp c = Some (\<lambda>r. ingredients r \<noteq> [])"
    by (rule comma_only_criteria)
  then show "\<exists>c. build_criteria RegExp q = Some c \<and>
      crit_ingredients_name c = Some (All_regexps (replicate (Suc (length s)) [])) \<and>
      (\<exists>ok. ingredients_clause RegExp c = Some ok \<and> (\<forall>r. ok r \<longleftrightarrow> ingredients r \<noteq> []))"
    by blast
next
  assume h: "s \<noteq> [] \<and> \<not> truthy (query_name q) \<and> \<not> truthy (query_tags q)"
  then have n: "s \<noteq> []" by simp
  from assms(1) n assms(2-4) obtain c where b: "build_criteria RegExp q = Some c"
    and cn: "crit_name c = (if truthy (query_name q) then query_name q else None)"
    and ct: "crit_tags_name c = (if truthy (query_tags q)
                             then map_option (split (CHR '','')) (query_tags q) else None)"
    and i: "ingredients_clause RegExp c = Some (\<lambda>r. ingredients r \<noteq> [])"
    by (rule comma_only_criteria)
  from cn ct h have "crit_name c = None" "crit_tags_name c = None"
    by (simp_all add: truthy_def)
  then have "find_recipes RegExp c (recipes db) =
      Some (filter (\<lambda>r. ingredients r \<noteq> []) (recipes db))"
    using i by (rule find_recipes_only_ingredients)
  with b show "get_recipes RegExp db q =
      Some (reply 200 (Recipes (map project (filter (\<lambda>r. ingredients r \<noteq> []) (recipes db)))))"
    by (simp add: get_recipes_def)
qed

text \<open>
  \<open>GET /recipes?ingredients=,\<close> returns the soup and the curry and leaves out the
  salad, which has no ingredient; the empty parameter adds no clause.
\<close>

theorem comma_only_ingredients_witness:
  "get_recipes RegExp_fragment search_db (only_ingredients '','') =
     Some (reply 200 (Recipes [project soup, project chicken_curry]))
   \<and> ingredients salad = []
   \<and> (\<exists>c. build_criteria RegExp_fragment (only_ingredients []) = Some c \<and>
         crit_ingredients_name c = None)"
proof -
  have e: "RegExp_fragment [] = Some (ci_contains [])"
    by (rule RegExp_fragment_empty)
  have a: "\<forall>x. ci_contains [] x"
    by (simp add: ci_contains_def)
  have f: "filter (\<lambda>r. ingredients r \<noteq> []) (recipes search_db) = [soup, chicken_curry]"
    by (simp add: search_db_def soup_def chicken_curry_def salad_def)
  have q1: "query_ingredients (only_ingredients '','') = Some '',''"
    by (simp add: only_ingredients_def)
  have s1: "set '','' \<subseteq> {CHR '',''}" by simp
  have q0: "query_ingredients (only_ingredients []) = Some []"
    by (simp add: only_ingredients_def)
  have s0: "set [] \<subseteq> {CHR '',''}" by simp
  note t = comma_only_ingredients
    [where RegExp = RegExp_fragment and m = "ci_contains []" and db = search_db]
  from t [where q = "only_ingredients '',''" and s = "'',''", OF q1 s1 e a]
  have "get_recipes RegExp_fragment search_db (only_ingredients '','') =
      Some (reply 200 (Recipes (map project
        (filter (\<lambda>r. ingredients r \<noteq> []) (recipes search_db)))))"
    by (simp add: only_ingredients_def truthy_def)
  moreover from t [where q = "only_ingredients []" and s = "[]", OF q0 s0 e a]
  have "\<exists>c. build_criteria RegExp_fragment (only_ingredients []) = Some c \<and>
         crit_ingredients_name c = None"
    by simp
  ultimately show ?thesis using f by (simp add: salad_def)
qed

text \<open>
  Claim C2 as stated fails on \<open>ingredients=,\<close>: the criteria do get a clause,
  of two empty patterns, and the clause selects two of the three recipes:
  neither no clause (all three recipes) nor a clause that selects none.
\<close>

theorem comma_only_ingredients_counterexample:
  "build_criteria RegExp_fragment (only_ingredients '','') =
     Some \<lparr>crit_name = None, crit_tags_name = None,
           crit_ingredients_name = Some (All_regexps [[], []])\<rparr>
   \<and> get_recipes RegExp_fragment search_db (only_ingredients '','') =
       Some (reply 200 (Recipes [project soup, project chicken_curry]))
   \<and> get_recipes RegExp_fragment search_db
         \<lparr>query_name = None, query_tags = None, query_ingredients = None\<rparr> =
       Some (reply 200 (Recipes [project soup, project chicken_curry, project salad]))"
  by code_simp

lemma those_map_all:
  "those (map f xs) = Some ys \<Longrightarrow>
   list_all P ys \<longleftrightarrow> list_all (\<lambda>x. case f x of None \<Rightarrow> False | Some y \<Rightarrow> P y) xs"
  by (induction xs arbitrary: ys) (auto split: option.splits)

lemma those_map_Nil: "those (map f xs) = Some ys \<Longrightarrow> ys = [] \<longleftrightarrow> xs = []"
  by (cases xs) (auto split: option.splits)

lemma all_of_compiled:
  assumes "those (map RegExp ts) = Some ms" and "ts \<noteq> []"
  shows "all_of (\<lambda>m s. m s) ms r \<longleftrightarrow>
         (\<forall>t\<in>set ts. \<exists>i\<in>set (ingredients r). pattern_matches RegExp t (ing_name i))"
proof -
  from assms have "ms \<noteq> []"
    by (simp add: those_map_Nil)
  moreover have "list_all (\<lambda>m. list_ex (\<lambda>i. m (ing_name i)) (ingredients r)) ms \<longleftrightarrow>
      list_all (\<lambda>t. case RegExp t of None \<Rightarrow> False
                     | Some m \<Rightarrow> list_ex (\<lambda>i. m (ing_name i)) (ingredients r)) ts"
    using assms(1) by (rule those_map_all)
  moreover have "(case RegExp t of None \<Rightarrow> False
                  | Some m \<Rightarrow> list_ex (\<lambda>i. m (ing_name i)) (ingredients r)) \<longleftrightarrow>
      (\<exists>i\<in>set (ingredients r). pattern_matches RegExp t (ing_name i))" for t
    by (simp add: pattern_matches_def list_ex_iff split: option.splits)
  ultimately show ?thesis
    by (simp add: all_of_def list_all_iff)
qed

lemma compiled_tokens_criteria:
  assumes "query_ingredients q = Some s" and "s \<noteq> []"
    and "those (map RegExp (split (CHR '','') s)) \<noteq> None"
  obtains c where "build_criteria RegExp q = Some c"
    and "crit_name c = (if truthy (query_name q) then query_name q else None)"
    and "crit_tags_name c = (if truthy (query_tags q)
                             then map_option (split (CHR '','')) (query_tags q) else None)"
    and "crit_ingredients_name c = Some (All_regexps (split (CHR '','') s))"
    and "ingredients_clause RegExp c =
           Some (\<lambda>r. \<forall>t\<in>set (split (CHR '','') s).
                   \<exists>i\<in>set (ingredients r). pattern_matches RegExp t (ing_name i))"
proof -
  let ?ts = "split (CHR '','') s"
  from assms(3) obtain ms where th: "those (map RegExp ?ts) = Some ms"
    by blast
  let ?c = "\<lparr>crit_name = (if truthy (query_name q) then query_name q else None),
             crit_tags_name = (if truthy (query_tags q)
                               then map_option (split (CHR '','')) (query_tags q) else None),
             crit_ingredients_name = Some (All_regexps ?ts)\<rparr>"
  have b: "build_criteria RegExp q = Some ?c"
    using assms(1,2) th by (rule build_criteria_ingredients_Some)
  have "crit_ingredients_name ?c = Some (All_regexps ?ts)"
    by simp
  then have "ingredients_clause RegExp ?c = Some (all_of (\<lambda>m s. m s) ms)"
    using th by (rule ingredients_clause_regexps)
  moreover have "all_of (\<lambda>m s. m s) ms =
      (\<lambda>r. \<forall>t\<in>set ?ts. \<exists>i\<in>set (ingredients r). pattern_matches RegExp t (ing_name i))"
    using th by (intro ext all_of_compiled split_nonempty)
  ultimately have i: "ingredients_clause RegExp ?c =
      Some (\<lambda>r. \<forall>t\<in>set ?ts. \<exists>i\<in>set (ingredients r). pattern_matches RegExp t (ing_name i))"
    by (simp only:)
  from b i show ?thesis
    by (intro that [of ?c]) simp_all
qed

lemma invalid_token_unanswered:
  assumes "query_ingredients q = Some s" and "s \<noteq> []"
    and "those (map RegExp (split (CHR '','') s)) = None"
  shows "build_criteria RegExp q = None" and "get_recipes RegExp db q = None"
proof -
  from assms show b: "build_criteria RegExp q = None"
    by (simp add: build_criteria_ingredients)
  then show "get_recipes RegExp db q = None"
    by (simp add: get_recipes_def)
qed

lemma pattern_matches_plain:
  assumes "\<forall>t. plain t \<and> ascii_text t \<longrightarrow>
             (\<exists>m. RegExp t = Some m \<and> (\<forall>x. ascii_text x \<longrightarrow> m x = ci_contains t x))"
    and "plain t" and "ascii_text t" and "ascii_text x"
  shows "pattern_matches RegExp t x = ci_contains t x"
proof -
  from assms obtain m where "RegExp t = Some m" and "\<forall>x. ascii_text x \<longrightarrow> m x = ci_contains t x"
    by blast
  with assms(4) show ?thesis
    by (simp add: pattern_matches_def)
qed

lemma plain_tokens_compile:
  assumes "\<forall>t. plain t \<and> ascii_text t \<longrightarrow>
             (\<exists>m. RegExp t = Some m \<and> (\<forall>x. ascii_text x \<longrightarrow> m x = ci_contains t x))"
    and "\<forall>t\<in>set ts. plain t \<and> ascii_text t"
  shows "those (map RegExp ts) \<noteq> None"
  using assms(2)
proof (induction ts)
  case Nil
  show ?case by simp
next
  case (Cons t ts)
  then have "plain t \<and> ascii_text t" by simp
  with assms(1) obtain m where "RegExp t = Some m" by blast
  moreover from Cons obtain ms where "those (map RegExp ts) = Some ms" by auto
  ultimately show ?case by simp
qed

lemma RegExp_fragment_reads_plain:
  "\<forall>t. plain t \<and> ascii_text t \<longrightarrow>
     (\<exists>m. RegExp_fragment t = Some m \<and> (\<forall>x. ascii_text x \<longrightarrow> m x = ci_contains t x))"
  by (simp add: RegExp_fragment_plain)

text \<open>
  Claim C3, as amended. Each token of a non-empty \<open>ingredients\<close> parameter is
  compiled as a case-insensitive regular expression. If a token does not
  compile, the handler throws: no criteria are built and no recipes are
  returned. Otherwise the criteria get
  the clause \<open>$all\<close> of the patterns, which holds of exactly the recipes that
  have, for every token, at least one ingredient whose name the token's pattern
  matches: a conjunctive test over all tokens, each a pattern match and not an
  equality. With no other parameter the handler returns exactly those recipes;
  with any other parameters every recipe it returns has, for each token, such
  an ingredient. Where the engine reads an ASCII pattern without syntax
  characters as its text on ASCII names, matching such a token is containing
  it case-insensitively: every returned recipe with ASCII ingredient names
  has, for each such token, an ingredient whose name contains the token, and
  when all tokens are such and all ingredient names are ASCII, the recipes
  returned for the parameter alone are exactly those that contain every token.
\<close>

theorem ingredients_filter_all_of:
  assumes "query_ingredients q = Some s" and "s \<noteq> []"
  shows "(those (map RegExp (split (CHR '','') s)) = None \<longrightarrow>
            build_criteria RegExp q = None \<and> get_recipes RegExp db q = None)
         \<and> (those (map RegExp (split (CHR '','') s)) \<noteq> None \<longrightarrow>
              (\<exists>c ok. build_criteria RegExp q = Some c \<and>
                 crit_ingredients_name c = Some (All_regexps (split (CHR '','') s)) \<and>
                 ingredients_clause RegExp c = Some ok \<and>
                 (\<forall>r. ok r \<longleftrightarrow>
                    (\<forall>t\<in>set (split (CHR '','') s).
                       \<exists>i\<in>set (ingredients r). pattern_matches RegExp t (ing_name i)))))
         \<and> (those (map RegExp (split (CHR '','') s)) \<noteq> None \<and>
              \<not> truthy (query_name q) \<and> \<not> truthy (query_tags q) \<longrightarrow>
              get_recipes RegExp db q =
                Some (reply 200 (Recipes (map project
                  (filter (\<lambda>r. \<forall>t\<in>set (split (CHR '','') s).
                             \<exists>i\<in>set (ingredients r). pattern_matches RegExp t (ing_name i))
                     (recipes db))))))
         \<and> (\<forall>vs. get_recipes RegExp db q = Some (reply 200 (Recipes vs)) \<longrightarrow>
              (\<forall>v\<in>set vs. \<forall>t\<in>set (split (CHR '','') s).
                 \<exists>i\<in>set (view_ingredients v). pattern_matches RegExp t (ing_name i)))
         \<and> ((\<forall>t. plain t \<and> ascii_text t \<longrightarrow>
                (\<exists>m. RegExp t = Some m \<and> (\<forall>x. ascii_text x \<longrightarrow> m x = ci_contains t x))) \<longrightarrow>
              (\<forall>vs. get_recipes RegExp db q = Some (reply 200 (Recipes vs)) \<longrightarrow>
                 (\<forall>v\<in>set vs. (\<forall>i\<in>set (view_ingredients v). ascii_text (ing_name i)) \<longrightarrow>
                    (\<forall>t\<in>set (split (CHR '','') s). plain t \<and> ascii_text t \<longrightarrow>
                       (\<exists>i\<in>set (view_ingredients v). ci_contains t (ing_name i)))))
              \<and> ((\<forall>t\<in>set (split (CHR '','') s). plain t \<and> ascii_text t) \<and>
                  (\<forall>r\<in>set (recipes db). \<forall>i\<in>set (ingredients r). ascii_text (ing_name i)) \<and>
                  \<not> truthy (query_name q) \<and> \<not> truthy (query_tags q) \<longrightarrow>
                  get_recipes RegExp db q =
                    Some (reply 200 (Recipes (map project
                      (filter (\<lambda>r. \<forall>t\<in>set (split (CHR '','') s).
                                 \<exists>i\<in>set (ingredients r). ci_contains t (ing_name i))
                         (recipes db)))))))"
proof -
  let ?ts = "split (CHR '','') s"
  let ?P = "\<lambda>r. \<forall>t\<in>set ?ts. \<exists>i\<in>set (ingredients r). pattern_matches RegExp t (ing_name i)"
  let ?C = "\<lambda>r. \<forall>t\<in>set ?ts. \<exists>i\<in>set (ingredients r). ci_contains t (ing_name i)"
  let ?H = "\<forall>t. plain t \<and> ascii_text t \<longrightarrow>
              (\<exists>m. RegExp t = Some m \<and> (\<forall>x. ascii_text x \<longrightarrow> m x = ci_contains t x))"
  have first: "those (map RegExp ?ts) = None \<longrightarrow>
      build_criteria RegExp q = None \<and> get_recipes RegExp db q = None"
    using assms by (simp add: invalid_token_unanswered)
  have second: "those (map RegExp ?ts) \<noteq> None \<longrightarrow>
      (\<exists>c ok. build_criteria RegExp q = Some c \<and>
         crit_ingredients_name c = Some (All_regexps ?ts) \<and>
         ingredients_clause RegExp c = Some ok \<and> (\<forall>r. ok r \<longleftrightarrow> ?P r))"
  proof
    assume "those (map RegExp ?ts) \<noteq> None"
    with assms obtain c where "build_criteria RegExp q = Some c"
      and "crit_ingredients_name c = Some (All_regexps ?ts)"
      and "ingredients_clause RegExp c = Some ?P"
      by (rule compiled_tokens_criteria)
    then show "\<exists>c ok. build_criteria RegExp q = Some c \<and>
        crit_ingredients_name c = Some (All_regexps ?ts) \<and>
        ingredients_clause RegExp c = Some ok \<and> (\<forall>r. ok r \<longleftrightarrow> ?P r)"
      by blast
  qed
  have third: "those (map RegExp ?ts) \<noteq> None \<and>
      \<not> truthy (query_name q) \<and> \<not> truthy (query_tags q) \<longrightarrow>
      get_recipes RegExp db q = Some (reply 200 (Recipes (map project (filter ?P (recipes db)))))"
  proof
    assume h: "those (map RegExp ?ts) \<noteq> None \<and>
        \<not> truthy (query_name q) \<and> \<not> truthy (query_tags q)"
    then have "those (map RegExp ?ts) \<noteq> None" by simp
    with assms obtain c where b: "build_criteria RegExp q = Some c"
      and cn: "crit_name c = (if truthy (query_name q) then query_name q else None)"
      and ct: "crit_tags_name c = (if truthy (query_tags q)
                               then map_option (split (CHR '','')) (query_tags q) else None)"
      and i: "ingredients_clause RegExp c = Some ?P"
      by (rule compiled_tokens_criteria)
    from cn ct h have "crit_name c = None" "crit_tags_name c = None"
      by simp_all
    then have "find_recipes RegExp c (recipes db) = Some (filter ?P (recipes db))"
      using i by (rule find_recipes_only_ingredients)
    with b show "get_recipes RegExp db q =
        Some (reply 200 (Recipes (map project (filter ?P (recipes db)))))"
      by (simp add: get_recipes_def)
  qed
  have sound: "\<exists>i\<in>set (view_ingredients v). pattern_matches RegExp t (ing_name i)"
    if g: "get_recipes RegExp db q = Some (reply 200 (Recipes vs))"
      and v: "v \<in> set vs" and t: "t \<in> set ?ts" for vs v t
  proof -
    from g obtain c found where c: "build_criteria RegExp q = Some c"
      and f: "find_recipes RegExp c (recipes db) = Some found"
      and "reply 200 (Recipes vs) = reply 200 (Recipes (map project found))"
      by (rule get_recipes_Some)
    then have vs: "vs = map project found"
      by (simp add: reply_def)
    from c assms have "those (map RegExp ?ts) \<noteq> None"
      by (auto simp: build_criteria_ingredients split: option.splits)
    with assms obtain c' where c': "build_criteria RegExp q = Some c'"
      and i: "ingredients_clause RegExp c' = Some ?P"
      by (rule compiled_tokens_criteria)
    from c c' have same: "c' = c" by simp
    from v vs obtain r where r: "r \<in> set found" and vr: "v = project r" by auto
    from f r obtain ok where "ingredients_clause RegExp c = Some ok" and "ok r"
      using find_recipes_ingredients_ok by blast
    with i same have "?P r" by simp
    with t vr show ?thesis
      by (simp add: project_def)
  qed
  then have fourth: "\<forall>vs. get_recipes RegExp db q = Some (reply 200 (Recipes vs)) \<longrightarrow>
      (\<forall>v\<in>set vs. \<forall>t\<in>set ?ts.
         \<exists>i\<in>set (view_ingredients v). pattern_matches RegExp t (ing_name i))"
    by blast
  have fifth: "?H \<longrightarrow>
      (\<forall>vs. get_recipes RegExp db q = Some (reply 200 (Recipes vs)) \<longrightarrow>
         (\<forall>v\<in>set vs. (\<forall>i\<in>set (view_ingredients v). ascii_text (ing_name i)) \<longrightarrow>
            (\<forall>t\<in>set ?ts. plain t \<and> ascii_text t \<longrightarrow>
               (\<exists>i\<in>set (view_ingredients v). ci_contains t (ing_name i)))))
      \<and> ((\<forall>t\<in>set ?ts. plain t \<and> ascii_text t) \<and>
          (\<forall>r\<in>set (recipes db). \<forall>i\<in>set (ingredients r). ascii_text (ing_name i)) \<and>
          \<not> truthy (query_name q) \<and> \<not> truthy (query_tags q) \<longrightarrow>
          get_recipes RegExp db q =
            Some (reply 200 (Recipes (map project (filter ?C (recipes db))))))"
  proof (intro impI conjI allI ballI)
    fix vs v t
    assume H: ?H and g: "get_recipes RegExp db q = Some (reply 200 (Recipes vs))"
      and v: "v \<in> set vs" and a: "\<forall>i\<in>set (view_ingredients v). ascii_text (ing_name i)"
      and t: "t \<in> set ?ts" and p: "plain t \<and> ascii_text t"
    from g v t obtain i where i: "i \<in> set (view_ingredients v)"
      and m: "pattern_matches RegExp t (ing_name i)"
      using sound by blast
    from a i have "ascii_text (ing_name i)" by simp
    with H p have "pattern_matches RegExp t (ing_name i) = ci_contains t (ing_name i)"
      by (intro pattern_matches_plain) simp_all
    with m i show "\<exists>i\<in>set (view_ingredients v). ci_contains t (ing_name i)"
      by blast
  next
    assume H: ?H and h: "(\<forall>t\<in>set ?ts. plain t \<and> ascii_text t) \<and>
        (\<forall>r\<in>set (recipes db). \<forall>i\<in>set (ingredients r). ascii_text (ing_name i)) \<and>
        \<not> truthy (query_name q) \<and> \<not> truthy (query_tags q)"
    then have "those (map RegExp ?ts) \<noteq> None"
      by (intro plain_tokens_compile) simp_all
    with third h have g: "get_recipes RegExp db q =
        Some (reply 200 (Recipes (map project (filter ?P (recipes db)))))"
      by blast
    have "?P r = ?C r" if "r \<in> set (recipes db)" for r
    proof -
      have "pattern_matches RegExp t (ing_name i) = ci_contains t (ing_name i)"
        if "t \<in> set ?ts" and "i \<in> set (ingredients r)" for t i
        using H h that \<open>r \<in> set (recipes db)\<close> by (intro pattern_matches_plain) simp_all
      then show ?thesis by blast
    qed
    then have "filter ?P (recipes db) = filter ?C (recipes db)"
      by (intro filter_cong refl)
    with g show "get_recipes RegExp db q =
        Some (reply 200 (Recipes (map project (filter ?C (recipes db)))))"
      by (simp only:)
  qed
  from first second third fourth fifth show ?thesis
    by (intro conjI)
qed

lemma chicken_filter:
  "filter (\<lambda>r. \<forall>t\<in>set [''CHI'', ''ck'']. \<exists>i\<in>set (ingredients r). ci_contains t (ing_name i))
     (recipes search_db) = [chicken_curry]"
  by code_simp

lemma caret_filter:
  "filter (\<lambda>r. \<forall>t\<in>set [''CHI'', ''^ch''].
             \<exists>i\<in>set (ingredients r). pattern_matches RegExp_fragment t (ing_name i))
     (recipes search_db) = [chicken_curry]"
  by code_simp

lemma mixed_filter:
  "filter (\<lambda>r. \<forall>t\<in>set [''chicken'', ''^on''].
             \<exists>i\<in>set (ingredients r). pattern_matches RegExp_fragment t (ing_name i))
     (recipes search_db) = []"
  by code_simp

lemma search_db_ascii:
  "\<forall>r\<in>set (recipes search_db). \<forall>i\<in>set (ingredients r). ascii_text (ing_name i)"
  by code_simp

lemma chicken_tokens_plain: "\<forall>t\<in>set (split (CHR '','') ''CHI,ck''). plain t \<and> ascii_text t"
  by code_simp

text \<open>
  \<open>ingredients=CHI,^ch\<close> returns the curry (Chicken matches both patterns);
  \<open>ingredients=chicken,^on\<close> returns nothing (no recipe has both a name with
  chicken and a name that starts with on); \<open>ingredients=CHI,ck\<close> returns the
  curry, whose Chicken contains both tokens; and \<open>ingredients=(\<close>, which is
  no pattern, makes the handler throw.
\<close>

theorem ingredients_filter_all_of_witness:
  "get_recipes RegExp_fragment search_db (only_ingredients ''CHI,^ch'') =
     Some (reply 200 (Recipes [project chicken_curry]))
   \<and> get_recipes RegExp_fragment search_db (only_ingredients ''chicken,^on'') =
     Some (reply 200 (Recipes []))
   \<and> get_recipes RegExp_fragment search_db (only_ingredients ''CHI,ck'') =
     Some (reply 200 (Recipes [project chicken_curry]))
   \<and> get_recipes RegExp_fragment search_db (only_ingredients ''('') = None
   \<and> split (CHR '','') ''CHI,ck'' = [''CHI'', ''ck'']
   \<and> map ing_name (ingredients chicken_curry) = [''Chicken'', ''Chili'']
   \<and> map ing_name (ingredients soup) = [''Onion'']"
proof -
  note t = ingredients_filter_all_of [where RegExp = RegExp_fragment and db = search_db]
  have o: "\<not> truthy (query_name (only_ingredients x)) \<and>
      \<not> truthy (query_tags (only_ingredients x))" for x
    by (simp add: only_ingredients_def truthy_def)
  have q: "query_ingredients (only_ingredients x) = Some x" for x
    by (simp add: only_ingredients_def)
  have c1: "those (map RegExp_fragment (split (CHR '','') ''CHI,^ch'')) \<noteq> None"
    by (simp add: RegExp_fragment_def plain_def syntax_chars_def)
  from t [where q = "only_ingredients ''CHI,^ch''" and s = "''CHI,^ch''", OF q] c1 o
  have "get_recipes RegExp_fragment search_db (only_ingredients ''CHI,^ch'') =
      Some (reply 200 (Recipes (map project
        (filter (\<lambda>r. \<forall>t\<in>set (split (CHR '','') ''CHI,^ch'').
                   \<exists>i\<in>set (ingredients r). pattern_matches RegExp_fragment t (ing_name i))
           (recipes search_db)))))"
    by blast
  moreover have "split (CHR '','') ''CHI,^ch'' = [''CHI'', ''^ch'']" by simp
  ultimately have a: "get_recipes RegExp_fragment search_db (only_ingredients ''CHI,^ch'') =
      Some (reply 200 (Recipes (map project [chicken_curry])))"
    by (simp only: caret_filter)
  have c2: "those (map RegExp_fragment (split (CHR '','') ''chicken,^on'')) \<noteq> None"
    by (simp add: RegExp_fragment_def plain_def syntax_chars_def)
  from t [where q = "only_ingredients ''chicken,^on''" and s = "''chicken,^on''", OF q] c2 o
  have "get_recipes RegExp_fragment search_db (only_ingredients ''chicken,^on'') =
      Some (reply 200 (Recipes (map project
        (filter (\<lambda>r. \<forall>t\<in>set (split (CHR '','') ''chicken,^on'').
                   \<exists>i\<in>set (ingredients r). pattern_matches RegExp_fragment t (ing_name i))
           (recipes search_db)))))"
    by blast
  moreover have "split (CHR '','') ''chicken,^on'' = [''chicken'', ''^on'']" by simp
  ultimately have b: "get_recipes RegExp_fragment search_db (only_ingredients ''chicken,^on'') =
      Some (reply 200 (Recipes (map project [])))"
    by (simp only: mixed_filter)
  have sp: "split (CHR '','') ''CHI,ck'' = [''CHI'', ''ck'']" by simp
  from t [where q = "only_ingredients ''CHI,ck''" and s = "''CHI,ck''", OF q]
    RegExp_fragment_reads_plain chicken_tokens_plain search_db_ascii o
  have "get_recipes RegExp_fragment search_db (only_ingredients ''CHI,ck'') =
      Some (reply 200 (Recipes (map project
        (filter (\<lambda>r. \<forall>t\<in>set (split (CHR '','') ''CHI,ck'').
                   \<exists>i\<in>set (ingredients r). ci_contains t (ing_name i))
           (recipes search_db)))))"
    by blast
  then have c: "get_recipes RegExp_fragment search_db (only_ingredients ''CHI,ck'') =
      Some (reply 200 (Recipes (map project [chicken_curry])))"
    by (simp only: sp chicken_filter)
  have c4: "those (map RegExp_fragment (split (CHR '','') ''('')) = None"
    by (simp add: RegExp_fragment_def plain_def syntax_chars_def)
  from t [where q = "only_ingredients ''(''" and s = "''(''", OF q] c4
  have d: "get_recipes RegExp_fragment search_db (only_ingredients ''('') = None"
    by blast
  from a b c d show ?thesis
    by (simp add: chicken_curry_def soup_def)
qed

text \<open>
  Claim C3 as stated fails on \<open>ingredients=^on\<close>: the caret of the pattern
  stands for the start of the name, the pattern matches Onion, and the soup is
  returned although no ingredient name of it contains the token \<open>^on\<close>.
\<close>

theorem ingredients_pattern_counterexample:
  "get_recipes RegExp_fragment search_db (only_ingredients ''^on'') =
     Some (reply 200 (Recipes [project soup]))
   \<and> map ing_name (ingredients soup) = [''Onion'']
   \<and> \<not> ci_contains ''^on'' ''Onion''"
  by code_simp


end
